theory Spec2Isabelle
  imports Complex_Main "HOL-Library.Word" "HOL-Library.Sublist" "HOL-Library.Multiset"
begin

section \<open>JavaScript values read from the output document\<close>

text \<open>
  The map page (app.js) and the stats page (stats.js) read \<^verbatim>\<open>data/wardrive.geojson\<close>, a
  JSON document. Every feature has a \<^verbatim>\<open>properties\<close> object; a property is a JSON scalar,
  and reading a key that is absent gives \<^verbatim>\<open>undefined\<close>. Numbers of the document are
  integers (signal strength, channel, counts). A string is held as the bytes of its UTF-8
  encoding, so that the ASCII characters are single bytes and every other character is a
  sequence of bytes above 127.
\<close>

datatype jsval = JUndefined | JNull | JBool bool | JNum int | JStr string

datatype error = TypeError

type_synonym props = "string \<rightharpoonup> jsval"

datatype geometry = Point real real | LineString "(real \<times> real) list"

record feature =
  properties :: props
  geometry :: geometry

text \<open>A Number of the language: a real, an infinity or NaN.\<close>

datatype number = NaN | NegInfinity | Finite real | PosInfinity

text \<open>
  What the pages take from the host and the model leaves open, as parameters: the
  conversion of a string to a number (StringToNumber of the language standard: white
  space, decimal, hexadecimal, exponent and Infinity forms); the printing of a number of
  magnitude \<open>2\<^sup>5\<^sup>3\<close> or more; the Unicode case conversions of a string that is not ASCII;
  and the source text that the host prints for the built-in function found under a
  property name of \<^verbatim>\<open>Object.prototype\<close>.
\<close>

record host =
  StringToNumber :: "string \<Rightarrow> number"
  NumberToString :: "int \<Rightarrow> string"
  upper_unicode :: "string \<Rightarrow> string"
  lower_unicode :: "string \<Rightarrow> string"
  native_code :: "string \<Rightarrow> string"

text \<open>\<^verbatim>\<open>p.key\<close> on an object: the value, or \<^verbatim>\<open>undefined\<close> when the key is absent.\<close>

definition get_prop :: "props \<Rightarrow> string \<Rightarrow> jsval" where
  "get_prop p k = (case p k of None \<Rightarrow> JUndefined | Some v \<Rightarrow> v)"

text \<open>ToBoolean: \<^verbatim>\<open>undefined\<close>, \<^verbatim>\<open>null\<close>, \<^verbatim>\<open>false\<close>, \<^verbatim>\<open>0\<close> and \<^verbatim>\<open>""\<close> are falsy.\<close>

fun truthy :: "jsval \<Rightarrow> bool" where
  "truthy JUndefined = False"
| "truthy JNull = False"
| "truthy (JBool b) = b"
| "truthy (JNum n) = (n \<noteq> 0)"
| "truthy (JStr s) = (s \<noteq> [])"

text \<open>\<^verbatim>\<open>a || b\<close>\<close>

definition js_or :: "jsval \<Rightarrow> jsval \<Rightarrow> jsval" where
  "js_or a b = (if truthy a then a else b)"

text \<open>The decimal digits of an integer.\<close>

fun string_of_nat :: "nat \<Rightarrow> string" where
  "string_of_nat n =
     (if n < 10 then [char_of (48 + n)]
      else string_of_nat (n div 10) @ [char_of (48 + n mod 10)])"

declare string_of_nat.simps [simp del]

definition string_of_int :: "int \<Rightarrow> string" where
  "string_of_int i = (if i < 0 then CHR ''-'' # string_of_nat (nat (- i)) else string_of_nat (nat i))"

text \<open>
  ToString, as applied to a property key, to a value in a template and to the argument of
  \<^verbatim>\<open>parseInt\<close>. An integer below \<open>2\<^sup>5\<^sup>3\<close> in magnitude is printed digit by digit; a larger
  one is printed by the host (rounded, and in exponent form from \<open>10\<^sup>2\<^sup>1\<close> on).
\<close>

fun js_toString :: "host \<Rightarrow> jsval \<Rightarrow> string" where
  "js_toString h JUndefined = ''undefined''"
| "js_toString h JNull = ''null''"
| "js_toString h (JBool b) = (if b then ''true'' else ''false'')"
| "js_toString h (JNum n) =
     (if \<bar>n\<bar> < 9007199254740992 then string_of_int n else NumberToString h n)"
| "js_toString h (JStr s) = s"

text \<open>ToNumber.\<close>

fun toNumber :: "host \<Rightarrow> jsval \<Rightarrow> number" where
  "toNumber h JUndefined = NaN"
| "toNumber h JNull = Finite 0"
| "toNumber h (JBool b) = Finite (if b then 1 else 0)"
| "toNumber h (JNum n) = Finite (real_of_int n)"
| "toNumber h (JStr s) = StringToNumber h s"

text \<open>
  \<^verbatim>\<open>a < n\<close> and \<^verbatim>\<open>a >= n\<close> against a number \<open>n\<close> that is an integer or NaN (\<open>None\<close>):
  false when either side is NaN.
\<close>

definition js_lt :: "host \<Rightarrow> jsval \<Rightarrow> int option \<Rightarrow> bool" where
  "js_lt h a b =
     (case b of
        None \<Rightarrow> False
      | Some y \<Rightarrow>
          (case toNumber h a of
             NaN \<Rightarrow> False
           | NegInfinity \<Rightarrow> True
           | Finite x \<Rightarrow> x < real_of_int y
           | PosInfinity \<Rightarrow> False))"

definition js_ge :: "host \<Rightarrow> jsval \<Rightarrow> int \<Rightarrow> bool" where
  "js_ge h a b =
     (case toNumber h a of
        NaN \<Rightarrow> False
      | NegInfinity \<Rightarrow> False
      | Finite x \<Rightarrow> x \<ge> real_of_int b
      | PosInfinity \<Rightarrow> True)"

subsection \<open>String methods\<close>

definition ascii :: "string \<Rightarrow> bool" where
  "ascii s = list_all (\<lambda>c. (of_char c :: nat) < 128) s"

text \<open>
  The case conversions of an ASCII character: a letter is shifted, any other character is
  left as it is. They are applied to the strings that are ASCII throughout, and to no other.
\<close>

definition upper_char :: "char \<Rightarrow> char" where
  "upper_char c =
     (let n = (of_char c :: nat) in if 97 \<le> n \<and> n \<le> 122 then char_of (n - 32) else c)"

definition lower_char :: "char \<Rightarrow> char" where
  "lower_char c =
     (let n = (of_char c :: nat) in if 65 \<le> n \<and> n \<le> 90 then char_of (n + 32) else c)"

text \<open>
  The case conversions of a string, \<^verbatim>\<open>toUpperCase\<close> and \<^verbatim>\<open>toLowerCase\<close>: on an ASCII
  string the letters are shifted, any other string is converted by the host's Unicode
  tables.
\<close>

definition upper_string :: "host \<Rightarrow> string \<Rightarrow> string" where
  "upper_string h s = (if ascii s then map upper_char s else upper_unicode h s)"

definition lower_string :: "host \<Rightarrow> string \<Rightarrow> string" where
  "lower_string h s = (if ascii s then map lower_char s else lower_unicode h s)"

text \<open>\<^verbatim>\<open>v.toUpperCase()\<close> and \<^verbatim>\<open>v.toLowerCase()\<close>: a TypeError unless \<open>v\<close> is a string.\<close>

fun toUpperCase :: "host \<Rightarrow> jsval \<Rightarrow> error + string" where
  "toUpperCase h (JStr s) = Inr (upper_string h s)"
| "toUpperCase h _ = Inl TypeError"

fun toLowerCase :: "host \<Rightarrow> jsval \<Rightarrow> error + string" where
  "toLowerCase h (JStr s) = Inr (lower_string h s)"
| "toLowerCase h _ = Inl TypeError"

text \<open>\<^verbatim>\<open>s.includes(t)\<close>: \<open>t\<close> occurs in \<open>s\<close> as a contiguous run.\<close>

fun str_includes :: "string \<Rightarrow> string \<Rightarrow> bool" where
  "str_includes [] t = (t = [])"
| "str_includes (c # cs) t = (prefix t (c # cs) \<or> str_includes cs t)"

text \<open>\<^verbatim>\<open>s.split(c)\<close> for a one-character separator.\<close>

fun split_on :: "char \<Rightarrow> string \<Rightarrow> string list" where
  "split_on c [] = [[]]"
| "split_on c (x # xs) =
     (if x = c then [] # split_on c xs
      else (case split_on c xs of [] \<Rightarrow> [[x]] | w # ws \<Rightarrow> (x # w) # ws))"

subsection \<open>parseInt\<close>

text \<open>
  The white space and line terminators of the language, in UTF-8: tab, line feed, vertical
  tab, form feed, carriage return, space, U+00A0, U+1680, U+2000 to U+200A, U+2028, U+2029,
  U+202F, U+205F, U+3000 and U+FEFF.
\<close>

definition white_space :: "string list" where
  "white_space =
     [[CHR 0x09], [CHR 0x0A], [CHR 0x0B], [CHR 0x0C], [CHR 0x0D], [CHR 0x20],
      [CHR 0xC2, CHR 0xA0],
      [CHR 0xE1, CHR 0x9A, CHR 0x80],
      [CHR 0xE2, CHR 0x80, CHR 0x80], [CHR 0xE2, CHR 0x80, CHR 0x81],
      [CHR 0xE2, CHR 0x80, CHR 0x82], [CHR 0xE2, CHR 0x80, CHR 0x83],
      [CHR 0xE2, CHR 0x80, CHR 0x84], [CHR 0xE2, CHR 0x80, CHR 0x85],
      [CHR 0xE2, CHR 0x80, CHR 0x86], [CHR 0xE2, CHR 0x80, CHR 0x87],
      [CHR 0xE2, CHR 0x80, CHR 0x88], [CHR 0xE2, CHR 0x80, CHR 0x89],
      [CHR 0xE2, CHR 0x80, CHR 0x8A],
      [CHR 0xE2, CHR 0x80, CHR 0xA8], [CHR 0xE2, CHR 0x80, CHR 0xA9],
      [CHR 0xE2, CHR 0x80, CHR 0xAF],
      [CHR 0xE2, CHR 0x81, CHR 0x9F],
      [CHR 0xE3, CHR 0x80, CHR 0x80],
      [CHR 0xEF, CHR 0xBB, CHR 0xBF]]"

text \<open>The string without its leading white space.\<close>

fun trim_start :: "string \<Rightarrow> string" where
  "trim_start [] = []"
| "trim_start (c # cs) =
     (case find (\<lambda>w. prefix w (c # cs)) white_space of
        None \<Rightarrow> c # cs
      | Some w \<Rightarrow> trim_start (drop (length w - 1) cs))"

text \<open>
  \<^verbatim>\<open>parseInt(v)\<close> with no radix: the argument is converted to a string, leading white
  space and one sign are skipped, a \<^verbatim>\<open>0x\<close> prefix selects radix 16, and the longest run
  of digits is read; with no digit the result is NaN (\<open>None\<close>).
\<close>

definition digit_val :: "char \<Rightarrow> nat option" where
  "digit_val c =
     (let n = (of_char c :: nat) in
      if 48 \<le> n \<and> n \<le> 57 then Some (n - 48)
      else if 97 \<le> n \<and> n \<le> 102 then Some (n - 87)
      else if 65 \<le> n \<and> n \<le> 70 then Some (n - 55)
      else None)"

definition is_digit :: "nat \<Rightarrow> char \<Rightarrow> bool" where
  "is_digit radix c = (case digit_val c of None \<Rightarrow> False | Some d \<Rightarrow> d < radix)"

definition digits_value :: "nat \<Rightarrow> string \<Rightarrow> nat" where
  "digits_value radix ds = foldl (\<lambda>acc c. acc * radix + the (digit_val c)) 0 ds"

definition parseInt_str :: "string \<Rightarrow> int option" where
  "parseInt_str s =
     (let s1 = trim_start s;
          neg = (case s1 of c # _ \<Rightarrow> c = CHR ''-'' | [] \<Rightarrow> False);
          s2 = (case s1 of c # r \<Rightarrow> if c = CHR ''-'' \<or> c = CHR ''+'' then r else s1 | [] \<Rightarrow> s1);
          hex = (prefix ''0x'' s2 \<or> prefix ''0X'' s2);
          radix = (if hex then 16 else 10);
          s3 = (if hex then drop 2 s2 else s2);
          ds = takeWhile (is_digit radix) s3
      in if ds = [] then None
         else Some ((if neg then - 1 else 1) * int (digits_value radix ds)))"

definition parseInt :: "host \<Rightarrow> jsval \<Rightarrow> int option" where
  "parseInt h v = parseInt_str (js_toString h v)"

section \<open>The stats page (stats.js)\<close>

text \<open>
  \<^verbatim>\<open>updateStatsPage\<close> counts every feature of \<^verbatim>\<open>data.features\<close> once per statistic. The
  model covers its counters and the two loops that fill them, lines 37 to 99: the objects
  \<^verbatim>\<open>security\<close>, \<^verbatim>\<open>rssiRanges\<close> and \<^verbatim>\<open>channelCounts\<close> with \<^verbatim>\<open>totalWifi\<close>, filled by the
  first loop, and the object \<^verbatim>\<open>vendorCounts\<close>, filled by the second. The page reaches
  these lines when the document has at least one feature (line 29). The table of the most
  common SSIDs and the drawing of the charts, which follow, are not modelled.
\<close>

record security =
  wpa3 :: nat
  wpa2 :: nat
  legacy :: nat
  open' :: nat

record rssiRanges =
  excellent :: nat
  good :: nat
  fair :: nat
  weak :: nat
  poor :: nat

record stats =
  totalWifi :: nat
  security :: security
  rssiRanges :: rssiRanges
  channelCounts :: "int \<rightharpoonup> nat"

text \<open>The loop \<^verbatim>\<open>for (let i = 1; i <= 14; i++) channelCounts[i] = 0\<close>.\<close>

definition init_channelCounts :: "int \<rightharpoonup> nat" where
  "init_channelCounts = (\<lambda>i. if 1 \<le> i \<and> i \<le> 14 then Some 0 else None)"

text \<open>The counters before the first loop, lines 38 to 52; \<open>n\<close> is \<^verbatim>\<open>features.length\<close>.\<close>

definition init_stats :: "nat \<Rightarrow> stats" where
  "init_stats n =
     \<lparr>totalWifi = n,
      security = \<lparr>wpa3 = 0, wpa2 = 0, legacy = 0, open' = 0\<rparr>,
      rssiRanges = \<lparr>excellent = 0, good = 0, fair = 0, weak = 0, poor = 0\<rparr>,
      channelCounts = init_channelCounts\<rparr>"

text \<open>Security classification, stats.js lines 63 to 71.\<close>

definition classify_security :: "string \<Rightarrow> security \<Rightarrow> security" where
  "classify_security auth sec =
     (if str_includes auth ''WPA3'' then sec\<lparr>wpa3 := wpa3 sec + 1\<rparr>
      else if str_includes auth ''WPA2'' then sec\<lparr>wpa2 := wpa2 sec + 1\<rparr>
      else if str_includes auth ''OPEN'' \<or> auth = '''' \<or> auth = ''[]''
        then sec\<lparr>open' := open' sec + 1\<rparr>
      else sec\<lparr>legacy := legacy sec + 1\<rparr>)"

text \<open>Signal strength classification, stats.js lines 77 to 81.\<close>

definition classify_rssi :: "host \<Rightarrow> jsval \<Rightarrow> rssiRanges \<Rightarrow> rssiRanges" where
  "classify_rssi h rssi r =
     (if js_ge h rssi (- 60) then r\<lparr>excellent := excellent r + 1\<rparr>
      else if js_ge h rssi (- 70) then r\<lparr>good := good r + 1\<rparr>
      else if js_ge h rssi (- 80) then r\<lparr>fair := fair r + 1\<rparr>
      else if js_ge h rssi (- 90) then r\<lparr>weak := weak r + 1\<rparr>
      else r\<lparr>poor := poor r + 1\<rparr>)"

text \<open>
  Channel distribution, stats.js lines 86 to 89. The keys 1 to 14 are always present, so
  \<^verbatim>\<open>channelCounts[ch]++\<close> finds a number there.
\<close>

definition count_channel :: "host \<Rightarrow> props \<Rightarrow> (int \<rightharpoonup> nat) \<Rightarrow> (int \<rightharpoonup> nat)" where
  "count_channel h p cc =
     (case parseInt h (js_or (get_prop p ''Channel'') (JNum 0)) of
        None \<Rightarrow> cc
      | Some ch \<Rightarrow>
          if ch \<ge> 1 \<and> ch \<le> 14
          then (case cc ch of None \<Rightarrow> cc | Some n \<Rightarrow> cc(ch \<mapsto> n + 1))
          else cc)"

text \<open>The body of the first \<^verbatim>\<open>features.forEach\<close>, stats.js lines 55 to 90.\<close>

definition process_feature :: "host \<Rightarrow> feature \<Rightarrow> stats \<Rightarrow> error + stats" where
  "process_feature h f st =
     (let p = properties f in
      case toUpperCase h (js_or (get_prop p ''AuthMode'') (JStr '''')) of
        Inl e \<Rightarrow> Inl e
      | Inr auth \<Rightarrow>
          let rssi = js_or (get_prop p ''best_rssi'') (JNum (- 100)) in
          Inr (st\<lparr>security := classify_security auth (security st),
                  rssiRanges := classify_rssi h rssi (rssiRanges st),
                  channelCounts := count_channel h p (channelCounts st)\<rparr>))"

text \<open>\<^verbatim>\<open>xs.forEach(body)\<close> over a state; an exception of the body ends the loop.\<close>

fun forEach :: "('a \<Rightarrow> 's \<Rightarrow> error + 's) \<Rightarrow> 'a list \<Rightarrow> 's \<Rightarrow> error + 's" where
  "forEach body [] s = Inr s"
| "forEach body (x # xs) s =
     (case body x s of Inl e \<Rightarrow> Inl e | Inr s' \<Rightarrow> forEach body xs s')"

subsection \<open>The vendor counts, a plain object\<close>

text \<open>
  \<^verbatim>\<open>vendorCounts\<close> is created as \<^verbatim>\<open>{}\<close>, so it inherits from \<^verbatim>\<open>Object.prototype\<close>, which
  nothing has changed when the loop runs. It is modelled by its own properties. A key it
  does not own is still found when \<^verbatim>\<open>Object.prototype\<close> has it: under \<^verbatim>\<open>__proto__\<close> the
  prototype object itself, under each of the names below a built-in function.
\<close>

definition object_prototype_methods :: "string list" where
  "object_prototype_methods =
     [''constructor'', ''__defineGetter__'', ''__defineSetter__'', ''hasOwnProperty'',
      ''__lookupGetter__'', ''__lookupSetter__'', ''isPrototypeOf'', ''propertyIsEnumerable'',
      ''toString'', ''valueOf'', ''toLocaleString'']"

text \<open>
  \<^verbatim>\<open>(obj[k] || 0) + 1\<close> for such an object: one more than a number, and a string with
  \<^verbatim>\<open>1\<close> appended for a string, for the prototype object (which prints as
  \<^verbatim>\<open>[object Object]\<close>) and for a function (which prints as its source text).
\<close>

definition or_zero_plus_one :: "host \<Rightarrow> (string \<rightharpoonup> jsval) \<Rightarrow> string \<Rightarrow> jsval" where
  "or_zero_plus_one h obj k =
     (case obj k of
        Some v \<Rightarrow>
          (if \<not> truthy v then JNum 1
           else (case v of
                   JNum n \<Rightarrow> JNum (n + 1)
                 | JStr s \<Rightarrow> JStr (s @ ''1'')
                 | _ \<Rightarrow> JNum 2))
      | None \<Rightarrow>
          if k = ''__proto__'' then JStr ''[object Object]1''
          else if k \<in> set object_prototype_methods then JStr (native_code h k @ ''1'')
          else JNum 1)"

text \<open>
  \<^verbatim>\<open>obj[k] = v\<close> for a value that is not an object: the setter of \<^verbatim>\<open>__proto__\<close> ignores
  it, any other key becomes an own property (and an own property is overwritten).
\<close>

definition plain_assign :: "(string \<rightharpoonup> jsval) \<Rightarrow> string \<Rightarrow> jsval \<Rightarrow> (string \<rightharpoonup> jsval)" where
  "plain_assign obj k v =
     (if k = ''__proto__'' \<and> obj k = None then obj else obj(k \<mapsto> v))"

text \<open>The body of the vendor loop, stats.js lines 96 to 99.\<close>

definition count_vendor :: "host \<Rightarrow> feature \<Rightarrow> (string \<rightharpoonup> jsval) \<Rightarrow> (string \<rightharpoonup> jsval)" where
  "count_vendor h f vc =
     (let vendor = js_toString h (js_or (get_prop (properties f) ''Vendor'') (JStr ''Unknown''))
      in plain_assign vc vendor (or_zero_plus_one h vc vendor))"

text \<open>The object \<^verbatim>\<open>vendorCounts\<close> after the loop.\<close>

definition vendorCounts :: "host \<Rightarrow> feature list \<Rightarrow> (string \<rightharpoonup> jsval)" where
  "vendorCounts h features = fold (count_vendor h) features Map.empty"

section \<open>The map page (app.js)\<close>

subsection \<open>Loading the document\<close>

text \<open>The two filters of the \<^verbatim>\<open>load\<close> handler, app.js lines 42 and 43 (and line 562).\<close>

definition allFeatures :: "feature list \<Rightarrow> feature list" where
  "allFeatures data_features =
     filter (\<lambda>f. get_prop (properties f) ''layer'' = JStr ''access_points'') data_features"

definition routeFeatures :: "feature list \<Rightarrow> feature list" where
  "routeFeatures data_features =
     filter (\<lambda>f. get_prop (properties f) ''layer'' = JStr ''route'') data_features"

subsection \<open>Layers and popup\<close>

text \<open>
  The filter expression of the layers \<^verbatim>\<open>points-open-glow\<close> and \<^verbatim>\<open>points-open\<close>
  (app.js lines 157 to 160 and 175 to 178): \<^verbatim>\<open>["any", ["==", ["get", "AuthMode"], "OPEN"],
  ["==", ["get", "AuthMode"], ""]]\<close>.
\<close>

definition points_open_glow_filter :: "props \<Rightarrow> bool" where
  "points_open_glow_filter p =
     (get_prop p ''AuthMode'' = JStr ''OPEN'' \<or> get_prop p ''AuthMode'' = JStr '''')"

definition points_open_filter :: "props \<Rightarrow> bool" where
  "points_open_filter p =
     (get_prop p ''AuthMode'' = JStr ''OPEN'' \<or> get_prop p ''AuthMode'' = JStr '''')"

text \<open>The \<^verbatim>\<open>match\<close> expression colouring the layer \<^verbatim>\<open>points-security\<close>, lines 196 to 208.\<close>

definition points_security_color :: "props \<Rightarrow> string" where
  "points_security_color p =
     (let a = get_prop p ''AuthMode'' in
      if a = JStr ''WPA3_PSK'' then ''#4ade80''
      else if a = JStr ''WPA2_WPA3_PSK'' then ''#4ade80''
      else if a = JStr ''WPA2_PSK'' then ''#fbbf24''
      else if a = JStr ''WPA_WPA2_PSK'' then ''#fbbf24''
      else if a = JStr ''WPA2_ENTERPRISE'' then ''#fbbf24''
      else if a = JStr ''WPA_PSK'' then ''#fb923c''
      else if a = JStr ''WEP'' then ''#f87171''
      else if a = JStr ''OPEN'' then ''#ef4444''
      else if a = JStr '''' then ''#ef4444''
      else ''#94a3b8'')"

text \<open>
  The colour of the security line of the popup, lines 409 to 413. \<^verbatim>\<open>p.AuthMode.includes\<close>
  is a TypeError unless the property is a string.
\<close>

definition secColor :: "props \<Rightarrow> error + string" where
  "secColor p =
     (case get_prop p ''AuthMode'' of
        JStr a \<Rightarrow>
          Inr (if str_includes a ''OPEN'' \<or> a = '''' then ''#ef4444''
               else if str_includes a ''WPA3'' then ''#10b981''
               else if str_includes a ''WPA2'' then ''#f59e0b''
               else ''#94a3b8'')
      | _ \<Rightarrow> Inl TypeError)"

subsection \<open>Session dropdown\<close>

text \<open>
  An entry of \<^verbatim>\<open>metadata.sessions\<close>, with the fields the page reads, and an option of the
  dropdown: its \<^verbatim>\<open>data-value\<close> and its text.
\<close>

record session =
  name :: string
  date :: string
  ap_count :: int
  duration_minutes :: int

record select_option =
  opt_value :: string
  opt_text :: string

text \<open>
  \<^verbatim>\<open>sessions.sort((a, b) => b.date.localeCompare(a.date))\<close>: a stable sort. The
  comparison of the host's locale is a parameter \<open>lc\<close>; the sort is modelled as a stable
  insertion sort, which is what every stable sort computes for a consistent comparison.
\<close>

fun sort_insert :: "('a \<Rightarrow> 'a \<Rightarrow> int) \<Rightarrow> 'a \<Rightarrow> 'a list \<Rightarrow> 'a list" where
  "sort_insert cmp x [] = [x]"
| "sort_insert cmp x (y # ys) =
     (if cmp x y \<le> 0 then x # y # ys else y # sort_insert cmp x ys)"

definition js_sort :: "('a \<Rightarrow> 'a \<Rightarrow> int) \<Rightarrow> 'a list \<Rightarrow> 'a list" where
  "js_sort cmp xs = foldr (sort_insert cmp) xs []"

text \<open>
  app.js lines 359 to 369; \<open>None\<close> when one of the three elements is not on the page. The
  text of an option is the template \<^verbatim>\<open>${s.date} (${s.ap_count} APs)\<close>.
\<close>

definition session_option :: "host \<Rightarrow> session \<Rightarrow> select_option" where
  "session_option h s =
     \<lparr>opt_value = name s,
      opt_text = date s @ '' ('' @ js_toString h (JNum (ap_count s)) @ '' APs)''\<rparr>"

definition populateSessionDropdown ::
  "host \<Rightarrow> (string \<Rightarrow> string \<Rightarrow> int) \<Rightarrow> bool \<Rightarrow> session list \<Rightarrow> select_option list option" where
  "populateSessionDropdown h lc elements_present sessions =
     (if \<not> elements_present then None
      else Some (\<lparr>opt_value = ''all'', opt_text = ''All Sessions''\<rparr> #
                 map (session_option h) (js_sort (\<lambda>a b. lc (date b) (date a)) sessions)))"

subsection \<open>Filtering\<close>

text \<open>
  The inputs \<^verbatim>\<open>updateMapFilters\<close> reads: the value of the search box, the value of the
  hidden session input and of the signal slider (\<open>None\<close> when the element is not on the
  page), and the vendor chip that is active (\<^verbatim>\<open>null\<close> is \<open>None\<close>).
\<close>

record ui_state =
  global_search :: string
  session_filter :: "string option"
  rssi_slider :: "string option"
  activeVendorFilter :: "string option"

fun js_split :: "jsval \<Rightarrow> char \<Rightarrow> error + string list" where
  "js_split (JStr s) c = Inr (split_on c s)"
| "js_split _ c = Inl TypeError"

text \<open>\<^verbatim>\<open>document.getElementById('session-filter')?.value || 'all'\<close>, line 466.\<close>

definition selectedSession :: "ui_state \<Rightarrow> string" where
  "selectedSession ui =
     (case session_filter ui of None \<Rightarrow> ''all'' | Some v \<Rightarrow> if v = [] then ''all'' else v)"

text \<open>\<^verbatim>\<open>rssiEl ? parseInt(rssiEl.value) : -100\<close>, line 469; \<open>None\<close> is NaN.\<close>

definition rssiVal :: "ui_state \<Rightarrow> int option" where
  "rssiVal ui = (case rssi_slider ui of None \<Rightarrow> Some (- 100) | Some v \<Rightarrow> parseInt_str v)"

text \<open>The session filter, lines 481 to 484: \<open>Inr False\<close> is \<^verbatim>\<open>return false\<close>.\<close>

definition session_passes :: "string \<Rightarrow> props \<Rightarrow> error + bool" where
  "session_passes sel p =
     (if sel \<noteq> ''all'' then
        (case js_split (js_or (get_prop p ''sessions'') (JStr '''')) CHR '','' of
           Inl e \<Rightarrow> Inl e
         | Inr apSessions \<Rightarrow> Inr (sel \<in> set apSessions))
      else Inr True)"

text \<open>The search, lines 490 to 492, with the short circuit of \<^verbatim>\<open>||\<close> and \<^verbatim>\<open>&&\<close>.\<close>

definition search_matches :: "host \<Rightarrow> string \<Rightarrow> props \<Rightarrow> error + bool" where
  "search_matches h searchText p =
     (case toLowerCase h (get_prop p ''SSID'') of
        Inl e \<Rightarrow> Inl e
      | Inr ssid \<Rightarrow>
          if str_includes ssid searchText then Inr True
          else (case toLowerCase h (get_prop p ''MAC'') of
                  Inl e \<Rightarrow> Inl e
                | Inr mac \<Rightarrow>
                    if str_includes mac searchText then Inr True
                    else if \<not> truthy (get_prop p ''Vendor'') then Inr False
                    else (case toLowerCase h (get_prop p ''Vendor'') of
                            Inl e \<Rightarrow> Inl e
                          | Inr v \<Rightarrow> Inr (str_includes v searchText))))"

text \<open>The callback of \<^verbatim>\<open>allFeatures.filter\<close>, lines 474 to 496.\<close>

definition filter_callback :: "host \<Rightarrow> ui_state \<Rightarrow> feature \<Rightarrow> error + bool" where
  "filter_callback h ui f =
     (let p = properties f;
          searchText = lower_string h (global_search ui);
          signal = js_or (get_prop p ''best_rssi'') (JNum (- 100))
      in if js_lt h signal (rssiVal ui) then Inr False
         else (case session_passes (selectedSession ui) p of
                 Inl e \<Rightarrow> Inl e
               | Inr ok \<Rightarrow>
                   if \<not> ok then Inr False
                   else if (case activeVendorFilter ui of
                              None \<Rightarrow> False
                            | Some v \<Rightarrow> v \<noteq> [] \<and> get_prop p ''Vendor'' \<noteq> JStr v)
                     then Inr False
                   else if searchText \<noteq> [] then search_matches h searchText p
                   else Inr True))"

text \<open>\<^verbatim>\<open>xs.filter(cb)\<close>; an exception of the callback ends the call.\<close>

fun js_filter :: "('a \<Rightarrow> error + bool) \<Rightarrow> 'a list \<Rightarrow> error + 'a list" where
  "js_filter cb [] = Inr []"
| "js_filter cb (x # xs) =
     (case cb x of
        Inl e \<Rightarrow> Inl e
      | Inr keep \<Rightarrow>
          (case js_filter cb xs of
             Inl e \<Rightarrow> Inl e
           | Inr ys \<Rightarrow> Inr (if keep then x # ys else ys)))"

text \<open>
  \<^verbatim>\<open>updateMapFilters\<close>, lines 462 to 505, once the source \<^verbatim>\<open>wardrive\<close> exists: the
  features handed to \<^verbatim>\<open>setData\<close>. Its argument is the array \<^verbatim>\<open>allFeatures\<close>.
\<close>

definition updateMapFilters ::
  "host \<Rightarrow> ui_state \<Rightarrow> feature list \<Rightarrow> error + feature list" where
  "updateMapFilters h ui all_features = js_filter (filter_callback h ui) all_features"

section \<open>What the stats page reads from a feature\<close>

text \<open>
  The values the body of the stats loop computes for one feature, named so that the counters
  can be described: the upper-cased auth mode, the signal strength after the default, the
  parsed channel and the vendor key.
\<close>

definition AuthMode_text :: "feature \<Rightarrow> bool" where
  "AuthMode_text f =
     (case get_prop (properties f) ''AuthMode'' of JStr a \<Rightarrow> True | v \<Rightarrow> \<not> truthy v)"

definition auth_of :: "host \<Rightarrow> feature \<Rightarrow> string" where
  "auth_of h f =
     (case js_or (get_prop (properties f) ''AuthMode'') (JStr '''') of
        JStr a \<Rightarrow> upper_string h a | _ \<Rightarrow> [])"

definition rssi_of :: "feature \<Rightarrow> jsval" where
  "rssi_of f = js_or (get_prop (properties f) ''best_rssi'') (JNum (- 100))"





section \<open>The data pipeline\<close>

text \<open>
  The pipeline that writes \<^verbatim>\<open>data/wardrive.geojson\<close> (\<^verbatim>\<open>build_data.py\<close> in the README) is
  not among the sources. Its Vendor Directory, Identity Merger and Document Emitter are
  modelled from the specification, sections 3, 4.1, 4.4, 4.6 and 6.
\<close>

subsection \<open>Vendor Directory\<close>

text \<open>A MAC address is a 48-bit value; \<^verbatim>\<open>02:AA:BB:CC:DD:EE\<close> is \<open>0x02AABBCCDDEE\<close>.\<close>

type_synonym mac_address = "48 word"

type_synonym vendor_table = "24 word \<rightharpoonup> string"

text \<open>
  Modelled from the spec: the registry source handed to the Vendor Directory (section 6), a
  finished list of prefix and name records, or unavailable (section 4.1, failure mode).
\<close>

datatype registry_source = Unavailable | Registry "(24 word \<times> string) list"

text \<open>
  Modelled from the spec: building the table of the Vendor Directory (section 4.1). An
  unavailable source gives the empty table, the degraded mode.
\<close>

definition load_table :: "registry_source \<Rightarrow> vendor_table" where
  "load_table src = (case src of Unavailable \<Rightarrow> Map.empty | Registry rows \<Rightarrow> map_of rows)"

text \<open>Modelled from the spec: the first octet of a MAC address (section 4.1).\<close>

definition first_octet :: "mac_address \<Rightarrow> 8 word" where
  "first_octet m = ucast (drop_bit 40 m)"

text \<open>
  Modelled from the spec: the locally-administered bit, the second bit of the first octet
  (section 4.1 and glossary).
\<close>

definition locally_administered :: "mac_address \<Rightarrow> bool" where
  "locally_administered m = bit (first_octet m) 1"

text \<open>
  Modelled from the spec: the 24-bit organizational prefix, the first three octets
  (section 4.1).
\<close>

definition oui_prefix :: "mac_address \<Rightarrow> 24 word" where
  "oui_prefix m = ucast (drop_bit 24 m)"

text \<open>
  Modelled from the spec: \<^verbatim>\<open>resolve(mac)\<close> of the Vendor Directory (section 4.1). The
  locally-administered bit is tested before the prefix is looked up.
\<close>

definition resolve :: "vendor_table \<Rightarrow> mac_address \<Rightarrow> string" where
  "resolve table m =
     (if locally_administered m then ''Randomized''
      else (case table (oui_prefix m) of Some vendor_name \<Rightarrow> vendor_name | None \<Rightarrow> ''Unknown''))"

subsection \<open>Identity Merger\<close>

text \<open>
  Modelled from the spec: the Observation of section 3. Coordinates are only copied by the
  merger, a timestamp is an instant on a linear scale.
\<close>

record observation =
  mac :: mac_address
  ssid :: string
  authMode :: string
  channel :: "int option"
  rssi :: int
  lat :: real
  lon :: real
  timestamp :: int
  sessionId :: string

text \<open>
  Modelled from the spec: the AccessPointAggregate of section 3, with the fields the merge
  of section 4.4 computes from the whole group. The fields taken from the most recent
  observation (ssid, auth mode and channel) are left out.
\<close>

record aggregate =
  apMac :: mac_address
  vendor :: string
  bestRssi :: int
  representativePoint :: "real \<times> real"
  firstSeen :: int
  lastSeen :: int
  sessionIds :: "string set"
  encounterCount :: nat

text \<open>
  Modelled from the spec: the strongest-signal observation of a group (section 4.4), the
  first one among those of maximum rssi.
\<close>

fun strongest :: "observation \<Rightarrow> observation list \<Rightarrow> observation" where
  "strongest best [] = best"
| "strongest best (ob # obs) = strongest (if rssi best < rssi ob then ob else best) obs"

text \<open>
  Modelled from the spec: the aggregate of one group of observations (section 4.4); an empty
  group has none.
\<close>

definition aggregate_group :: "vendor_table \<Rightarrow> observation list \<Rightarrow> aggregate option" where
  "aggregate_group table grp =
     (case grp of
        [] \<Rightarrow> None
      | ob # obs \<Rightarrow>
          Some \<lparr>apMac = mac ob,
                vendor = resolve table (mac ob),
                bestRssi = rssi (strongest ob obs),
                representativePoint = (lat (strongest ob obs), lon (strongest ob obs)),
                firstSeen = fold min (map timestamp obs) (timestamp ob),
                lastSeen = fold max (map timestamp obs) (timestamp ob),
                sessionIds = set (map sessionId (ob # obs)),
                encounterCount = length (ob # obs)\<rparr>)"

text \<open>
  Modelled from the spec: the aggregation step of the Identity Merger (section 4.4): group
  all observations by mac, one aggregate per group.
\<close>

definition aggregate_groups :: "vendor_table \<Rightarrow> observation list \<Rightarrow> aggregate list" where
  "aggregate_groups table observations =
     List.map_filter
       (\<lambda>m. aggregate_group table (filter (\<lambda>ob. mac ob = m) observations))
       (remdups (map mac observations))"

text \<open>
  Modelled from the spec: the condition of the jitter policy (section 4.4), two or more
  of the aggregates have this representative point.
\<close>

definition shares_point :: "aggregate list \<Rightarrow> real \<times> real \<Rightarrow> bool" where
  "shares_point aggregates pt =
     (2 \<le> length (filter (\<lambda>b. representativePoint b = pt) aggregates))"

text \<open>
  Modelled from the spec: the jitter pass of the Identity Merger (section 4.4). Every
  aggregate that shares its point is moved by an offset derived from its mac; an aggregate
  with a unique point is left as it is. The offset scheme is the parameter \<open>offset\<close>, in
  degrees of latitude and longitude; the specification leaves it open (section 9).
\<close>

definition jitter :: "(mac_address \<Rightarrow> real \<times> real) \<Rightarrow> aggregate list \<Rightarrow> aggregate list" where
  "jitter offset aggregates =
     map (\<lambda>a. if shares_point aggregates (representativePoint a)
              then a\<lparr>representativePoint :=
                     (fst (representativePoint a) + fst (offset (apMac a)),
                      snd (representativePoint a) + snd (offset (apMac a)))\<rparr>
              else a)
         aggregates"

text \<open>
  Modelled from the spec: \<^verbatim>\<open>merge\<close> of the Identity Merger (section 4.4): the aggregation
  step and, after it, the jitter pass.
\<close>

definition merge ::
  "(mac_address \<Rightarrow> real \<times> real) \<Rightarrow> vendor_table \<Rightarrow> observation list \<Rightarrow> aggregate list" where
  "merge offset table observations = jitter offset (aggregate_groups table observations)"

subsection \<open>Document Emitter\<close>

text \<open>
  Modelled from the spec: a RouteLine (section 3), the session it belongs to and its
  (lon, lat) pairs.
\<close>

record route_line =
  route_session :: string
  route_points :: "(real \<times> real) list"

text \<open>
  Modelled from the spec: the OutputDocument (sections 3 and 6), a feature collection and
  the list \<^verbatim>\<open>metadata.sessions\<close>.
\<close>

record output_document =
  features :: "feature list"
  metadata_sessions :: "session list"

text \<open>
  Modelled from the spec: the point feature of an aggregate (section 6). How the fields of
  the aggregate are written as properties is a parameter \<open>enc\<close>; the layer tag is
  \<^verbatim>\<open>access_points\<close>.
\<close>

definition ap_feature :: "(aggregate \<Rightarrow> props) \<Rightarrow> aggregate \<Rightarrow> feature" where
  "ap_feature enc a =
     \<lparr>properties = (enc a)(''layer'' \<mapsto> JStr ''access_points''),
      geometry = Point (snd (representativePoint a)) (fst (representativePoint a))\<rparr>"

text \<open>
  Modelled from the spec: the line feature of a route (section 6), with the session id as
  its property and the layer tag \<^verbatim>\<open>route\<close>.
\<close>

definition route_feature :: "route_line \<Rightarrow> feature" where
  "route_feature r =
     \<lparr>properties = [''session'' \<mapsto> JStr (route_session r), ''layer'' \<mapsto> JStr ''route''],
      geometry = LineString (route_points r)\<rparr>"

text \<open>
  Modelled from the spec: \<^verbatim>\<open>emit\<close> of the Document Emitter (section 4.6): one point
  feature per aggregate, one line feature per non-empty route, and the session summaries.
\<close>

definition emit ::
  "(aggregate \<Rightarrow> props) \<Rightarrow> aggregate list \<Rightarrow> route_line list \<Rightarrow> session list \<Rightarrow> output_document" where
  "emit enc aggregates routes sessions =
     \<lparr>features = map (ap_feature enc) aggregates
                   @ map route_feature (filter (\<lambda>r. route_points r \<noteq> []) routes),
      metadata_sessions = sessions\<rparr>"

text \<open>The geometry kinds of a feature.\<close>

definition is_point :: "geometry \<Rightarrow> bool" where
  "is_point g = (case g of Point x y \<Rightarrow> True | LineString ps \<Rightarrow> False)"

definition is_line :: "geometry \<Rightarrow> bool" where
  "is_line g = (case g of Point x y \<Rightarrow> False | LineString ps \<Rightarrow> True)"

section \<open>What the map page reads from a feature\<close>

text \<open>
  The session list the filter callback computes for a feature, and the condition under which
  it can be computed: the \<^verbatim>\<open>sessions\<close> property is a string or falsy.
\<close>

definition sessions_text :: "feature \<Rightarrow> bool" where
  "sessions_text f =
     (case get_prop (properties f) ''sessions'' of JStr s \<Rightarrow> True | v \<Rightarrow> \<not> truthy v)"

definition apSessions :: "feature \<Rightarrow> string list" where
  "apSessions f =
     (case js_or (get_prop (properties f) ''sessions'') (JStr '''') of
        JStr s \<Rightarrow> split_on CHR '','' s | _ \<Rightarrow> [])"

text \<open>
  An instance of the locale comparison: by character code, which is how dates in ISO form
  compare in every locale.
\<close>

fun code_unit_compare :: "string \<Rightarrow> string \<Rightarrow> int" where
  "code_unit_compare [] [] = 0"
| "code_unit_compare [] (y # ys) = - 1"
| "code_unit_compare (x # xs) [] = 1"
| "code_unit_compare (x # xs) (y # ys) =
     (if (of_char x :: nat) < of_char y then - 1
      else if (of_char y :: nat) < of_char x then 1
      else code_unit_compare xs ys)"

section \<open>Instances for the examples\<close>

text \<open>
  The theorems hold for every host. The examples consult the host on no input: their
  strings are ASCII, their numbers are small, no string is compared as a number and no
  vendor is named like a built-in function. The instance below only fixes one host for
  them.
\<close>

definition example_host :: host where
  "example_host =
     \<lparr>StringToNumber = (\<lambda>s. NaN),
      NumberToString = string_of_int,
      upper_unicode = (\<lambda>s. s),
      lower_unicode = (\<lambda>s. s),
      native_code =
        (\<lambda>k. ''function '' @ (if k = ''constructor'' then ''Object'' else k)
               @ ''() { [native code] }'')\<rparr>"

text \<open>An instance of the jitter offsets, for the examples: a few millionths of a degree.\<close>

definition example_offset :: "mac_address \<Rightarrow> real \<times> real" where
  "example_offset m =
     (real (unat m mod 7 + 1) / 1000000, real (unat m mod 5 + 1) / 1000000)"

section \<open>Properties of the string methods\<close>

text \<open>The model of \<^verbatim>\<open>includes\<close> is the contiguous-sublist relation of the library.\<close>

lemma str_includes_sublist: "str_includes s t \<longleftrightarrow> sublist t s"
  by (induction s) (auto simp: sublist_Cons_right)

text \<open>A string without the separator is split into itself; no part contains the separator.\<close>

lemma split_on_no_separator: "c \<notin> set s \<Longrightarrow> split_on c s = [s]"
  by (induction s) auto

lemma split_on_nonempty: "split_on c s \<noteq> []"
  by (induction s) (auto split: list.splits)

lemma split_on_parts: "w \<in> set (split_on c s) \<Longrightarrow> c \<notin> set w"
proof (induction s arbitrary: w)
  case Nil
  then show ?case by simp
next
  case (Cons x s)
  show ?case
  proof (cases "x = c")
    case True
    with Cons show ?thesis by auto
  next
    case False
    obtain v vs where split: "split_on c s = v # vs"
      using split_on_nonempty [of c s] by (cases "split_on c s") auto
    with Cons.prems False have "w = x # v \<or> w \<in> set vs" by simp
    then show ?thesis
    proof
      assume "w = x # v"
      moreover have "c \<notin> set v" using Cons.IH [of v] split by simp
      ultimately show ?thesis using False by auto
    next
      assume "w \<in> set vs"
      then show ?thesis using Cons.IH [of w] split by simp
    qed
  qed
qed

section \<open>Properties of the stats page\<close>

lemma process_feature_text:
  assumes "AuthMode_text f"
  shows "process_feature h f st =
     Inr (st\<lparr>security := classify_security (auth_of h f) (security st),
             rssiRanges := classify_rssi h (rssi_of f) (rssiRanges st),
             channelCounts := count_channel h (properties f) (channelCounts st)\<rparr>)"
  using assms
  by (cases "get_prop (properties f) ''AuthMode''")
     (auto simp: process_feature_def AuthMode_text_def auth_of_def rssi_of_def js_or_def Let_def)

lemma process_feature_Inr:
  assumes "process_feature h f st = Inr st'"
  shows "st' = st\<lparr>security := classify_security (auth_of h f) (security st),
             rssiRanges := classify_rssi h (rssi_of f) (rssiRanges st),
             channelCounts := count_channel h (properties f) (channelCounts st)\<rparr>"
  using assms
  by (cases "get_prop (properties f) ''AuthMode''")
     (auto simp: process_feature_def auth_of_def rssi_of_def js_or_def Let_def split: if_splits)

lemma forEach_process_feature:
  assumes "forEach (process_feature h) fs st = Inr st'"
  shows "st' = st\<lparr>security := fold (\<lambda>f. classify_security (auth_of h f)) fs (security st),
             rssiRanges := fold (\<lambda>f. classify_rssi h (rssi_of f)) fs (rssiRanges st),
             channelCounts := fold (\<lambda>f. count_channel h (properties f)) fs (channelCounts st)\<rparr>"
  using assms
proof (induction fs arbitrary: st)
  case Nil
  then show ?case by simp
next
  case (Cons f fs)
  from Cons.prems obtain s1 where s1: "process_feature h f st = Inr s1"
    and rest: "forEach (process_feature h) fs s1 = Inr st'"
    by (auto split: sum.splits)
  show ?case
    using Cons.IH [OF rest] process_feature_Inr [OF s1] by simp
qed

lemma forEach_process_feature_total:
  assumes "\<forall>f\<in>set fs. AuthMode_text f"
  shows "\<exists>st'. forEach (process_feature h) fs st = Inr st'"
  using assms
  by (induction fs arbitrary: st) (auto simp: process_feature_text)

lemma security_sum_step:
  "wpa3 (classify_security a sec) + wpa2 (classify_security a sec)
     + open' (classify_security a sec) + legacy (classify_security a sec)
   = wpa3 sec + wpa2 sec + open' sec + legacy sec + 1"
  by (simp add: classify_security_def)

lemma security_sum_fold:
  "wpa3 (fold (\<lambda>f. classify_security (g f)) fs sec) + wpa2 (fold (\<lambda>f. classify_security (g f)) fs sec)
     + open' (fold (\<lambda>f. classify_security (g f)) fs sec) + legacy (fold (\<lambda>f. classify_security (g f)) fs sec)
   = wpa3 sec + wpa2 sec + open' sec + legacy sec + length fs"
proof (induction fs arbitrary: sec)
  case Nil
  then show ?case by simp
next
  case (Cons f fs)
  show ?case
    using Cons.IH [of "classify_security (g f) sec"] security_sum_step [of "g f" sec]
    by simp
qed


lemma security_counts_fold:
  "wpa3 (fold (\<lambda>f. classify_security (g f)) fs sec)
     = wpa3 sec + length (filter (\<lambda>f. str_includes (g f) ''WPA3'') fs)
   \<and> wpa2 (fold (\<lambda>f. classify_security (g f)) fs sec)
     = wpa2 sec + length (filter (\<lambda>f. \<not> str_includes (g f) ''WPA3'' \<and> str_includes (g f) ''WPA2'') fs)
   \<and> open' (fold (\<lambda>f. classify_security (g f)) fs sec)
     = open' sec + length (filter (\<lambda>f. \<not> str_includes (g f) ''WPA3'' \<and> \<not> str_includes (g f) ''WPA2''
          \<and> (str_includes (g f) ''OPEN'' \<or> g f = [] \<or> g f = ''[]'')) fs)
   \<and> legacy (fold (\<lambda>f. classify_security (g f)) fs sec)
     = legacy sec + length (filter (\<lambda>f. \<not> str_includes (g f) ''WPA3'' \<and> \<not> str_includes (g f) ''WPA2''
          \<and> \<not> (str_includes (g f) ''OPEN'' \<or> g f = [] \<or> g f = ''[]'')) fs)"
proof (induction fs arbitrary: sec)
  case Nil
  then show ?case by simp
next
  case (Cons f fs)
  show ?case
    unfolding fold_Cons comp_apply
    by (simp only: Cons.IH) (simp add: classify_security_def)
qed










lemma count_vendor_proto:
  assumes "vc ''__proto__'' = None"
  shows "count_vendor h f vc ''__proto__'' = None"
  using assms by (auto simp: count_vendor_def plain_assign_def Let_def)

lemma vendorCounts_proto: "vendorCounts h fs ''__proto__'' = None"
proof -
  have "fold (count_vendor h) fs vc ''__proto__'' = None" if "vc ''__proto__'' = None" for vc
    using that by (induction fs arbitrary: vc) (simp_all add: count_vendor_proto)
  then show ?thesis by (simp add: vendorCounts_def)
qed

lemma js_filter_Inr:
  "js_filter cb xs = Inr ys \<Longrightarrow> ys = filter (\<lambda>x. cb x = Inr True) xs"
  by (induction xs arbitrary: ys) (auto split: sum.splits if_splits)

text \<open>The upper-casing of the auth modes of the examples.\<close>

lemma upper_string_empty: "upper_string h [] = []"
  by (simp add: upper_string_def ascii_def)

lemma upper_string_OPEN: "upper_string h ''OPEN'' = ''OPEN''"
proof -
  have "ascii ''OPEN''" by code_simp
  moreover have "map upper_char ''OPEN'' = ''OPEN''" by code_simp
  ultimately show ?thesis by (simp only: upper_string_def if_True)
qed

lemma upper_string_WPA2_WPA3_PSK: "upper_string h ''WPA2_WPA3_PSK'' = ''WPA2_WPA3_PSK''"
proof -
  have "ascii ''WPA2_WPA3_PSK''" by code_simp
  moreover have "map upper_char ''WPA2_WPA3_PSK'' = ''WPA2_WPA3_PSK''" by code_simp
  ultimately show ?thesis by (simp only: upper_string_def if_True)
qed

lemma upper_string_brackets: "upper_string h ''[]'' = ''[]''"
proof -
  have "ascii ''[]''" by code_simp
  moreover have "map upper_char ''[]'' = ''[]''" by code_simp
  ultimately show ?thesis by (simp only: upper_string_def if_True)
qed

lemma lower_string_empty: "lower_string h [] = []"
  by (simp add: lower_string_def ascii_def)

lemma parseInt_str_m70: "parseInt_str ''-70'' = Some (- 70)"
  by code_simp

lemma parseInt_str_m100: "parseInt_str ''-100'' = Some (- 100)"
  by code_simp













text \<open>
  Claim C5. A feature whose auth mode is the empty string is classified as a feature whose
  auth mode is \<^verbatim>\<open>OPEN\<close>, and never as a secure class: the stats loop adds both to the
  \<^verbatim>\<open>open\<close> counter and to no other, both pass the filter of the two open-network highlight
  layers, the security layer gives both the colour of open networks, and the popup gives
  both the same colour.
\<close>

theorem empty_auth_mode_classified_as_open:
  fixes p :: props and g :: geometry
  shows
   "(\<exists>st'. process_feature h \<lparr>properties = p(''AuthMode'' \<mapsto> JStr ''''), geometry = g\<rparr> st = Inr st'
        \<and> security st' = (security st)\<lparr>open' := open' (security st) + 1\<rparr>)
  \<and> (\<exists>st'. process_feature h \<lparr>properties = p(''AuthMode'' \<mapsto> JStr ''OPEN''), geometry = g\<rparr> st = Inr st'
        \<and> security st' = (security st)\<lparr>open' := open' (security st) + 1\<rparr>)
  \<and> points_open_filter (p(''AuthMode'' \<mapsto> JStr '''')) \<and> points_open_filter (p(''AuthMode'' \<mapsto> JStr ''OPEN''))
  \<and> points_open_glow_filter (p(''AuthMode'' \<mapsto> JStr '''')) \<and> points_open_glow_filter (p(''AuthMode'' \<mapsto> JStr ''OPEN''))
  \<and> points_security_color (p(''AuthMode'' \<mapsto> JStr '''')) = ''#ef4444''
  \<and> points_security_color (p(''AuthMode'' \<mapsto> JStr ''OPEN'')) = ''#ef4444''
  \<and> secColor (p(''AuthMode'' \<mapsto> JStr '''')) = Inr ''#ef4444''
  \<and> secColor (p(''AuthMode'' \<mapsto> JStr ''OPEN'')) = Inr ''#ef4444''"
proof -
  have a: "\<exists>st'. process_feature h \<lparr>properties = p(''AuthMode'' \<mapsto> JStr ''''), geometry = g\<rparr> st = Inr st'
        \<and> security st' = (security st)\<lparr>open' := open' (security st) + 1\<rparr>"
    by (simp add: process_feature_def get_prop_def js_or_def classify_security_def
        upper_string_empty)
  have b: "\<exists>st'. process_feature h \<lparr>properties = p(''AuthMode'' \<mapsto> JStr ''OPEN''), geometry = g\<rparr> st = Inr st'
        \<and> security st' = (security st)\<lparr>open' := open' (security st) + 1\<rparr>"
    by (simp add: process_feature_def get_prop_def js_or_def upper_string_OPEN [simplified]
        classify_security_def)
  have c: "points_open_filter (p(''AuthMode'' \<mapsto> JStr '''')) \<and> points_open_filter (p(''AuthMode'' \<mapsto> JStr ''OPEN''))
     \<and> points_open_glow_filter (p(''AuthMode'' \<mapsto> JStr '''')) \<and> points_open_glow_filter (p(''AuthMode'' \<mapsto> JStr ''OPEN''))"
    by (simp add: points_open_filter_def points_open_glow_filter_def get_prop_def)
  have d: "points_security_color (p(''AuthMode'' \<mapsto> JStr '''')) = ''#ef4444''
     \<and> points_security_color (p(''AuthMode'' \<mapsto> JStr ''OPEN'')) = ''#ef4444''"
    by (simp add: points_security_color_def get_prop_def)
  have e: "secColor (p(''AuthMode'' \<mapsto> JStr '''')) = Inr ''#ef4444''
     \<and> secColor (p(''AuthMode'' \<mapsto> JStr ''OPEN'')) = Inr ''#ef4444''"
    by (simp add: secColor_def get_prop_def)
  from a b c d e show ?thesis by blast
qed

text \<open>
  Claim C9. The security classification of the stats loop, stats.js lines 55 to 71, is a
  partition with the precedence WPA3, WPA2, open, legacy. Every step of the loop that
  returns adds one to exactly one counter, so their sum grows by one. When the loop has
  run over the features, each counter is the number of features of its class and the four
  add up to the number of features. An auth mode \<^verbatim>\<open>WPA2_WPA3_PSK\<close> is of the class WPA3; an
  empty or missing auth mode and \<^verbatim>\<open>[]\<close> are of the class open. The loop runs to its end
  whenever every auth mode is a string or falsy (on any other value \<^verbatim>\<open>toUpperCase\<close> is
  not a function).
\<close>

theorem security_classification_partitions_features:
  assumes run: "forEach (process_feature h) fs (init_stats (length fs)) = Inr st"
  shows "wpa3 (security st) + wpa2 (security st) + open' (security st) + legacy (security st)
         = length fs
     \<and> wpa3 (security st) = length (filter (\<lambda>f. str_includes (auth_of h f) ''WPA3'') fs)
     \<and> wpa2 (security st)
         = length (filter (\<lambda>f. \<not> str_includes (auth_of h f) ''WPA3''
                               \<and> str_includes (auth_of h f) ''WPA2'') fs)
     \<and> open' (security st)
         = length (filter (\<lambda>f. \<not> str_includes (auth_of h f) ''WPA3''
                               \<and> \<not> str_includes (auth_of h f) ''WPA2''
                               \<and> (str_includes (auth_of h f) ''OPEN'' \<or> auth_of h f = []
                                    \<or> auth_of h f = ''[]'')) fs)
     \<and> legacy (security st)
         = length (filter (\<lambda>f. \<not> str_includes (auth_of h f) ''WPA3''
                               \<and> \<not> str_includes (auth_of h f) ''WPA2''
                               \<and> \<not> (str_includes (auth_of h f) ''OPEN'' \<or> auth_of h f = []
                                    \<or> auth_of h f = ''[]'')) fs)
     \<and> (\<forall>f s s'. process_feature h f s = Inr s'
            \<longrightarrow> wpa3 (security s') + wpa2 (security s') + open' (security s') + legacy (security s')
                = wpa3 (security s) + wpa2 (security s) + open' (security s) + legacy (security s) + 1)
     \<and> (\<forall>f. properties f ''AuthMode'' = Some (JStr ''WPA2_WPA3_PSK'')
            \<longrightarrow> str_includes (auth_of h f) ''WPA3'')
     \<and> (\<forall>f. properties f ''AuthMode'' = None \<or> properties f ''AuthMode'' = Some (JStr '''')
            \<longrightarrow> auth_of h f = [])
     \<and> (\<forall>f. properties f ''AuthMode'' = Some (JStr ''[]'') \<longrightarrow> auth_of h f = ''[]'')
     \<and> (\<forall>fs'. (\<forall>f\<in>set fs'. AuthMode_text f)
            \<longrightarrow> (\<exists>st'. forEach (process_feature h) fs' (init_stats (length fs')) = Inr st'))"
proof -
  have sec: "security st = fold (\<lambda>f. classify_security (auth_of h f)) fs
                 \<lparr>wpa3 = 0, wpa2 = 0, legacy = 0, open' = 0\<rparr>"
    using forEach_process_feature [OF run] by (simp add: init_stats_def)
  have total: "wpa3 (security st) + wpa2 (security st) + open' (security st) + legacy (security st)
         = length fs"
    unfolding sec
    using security_sum_fold [of "auth_of h" fs "\<lparr>wpa3 = 0, wpa2 = 0, legacy = 0, open' = 0\<rparr>"]
    by simp
  have each: "wpa3 (security st) = length (filter (\<lambda>f. str_includes (auth_of h f) ''WPA3'') fs)
     \<and> wpa2 (security st)
         = length (filter (\<lambda>f. \<not> str_includes (auth_of h f) ''WPA3''
                               \<and> str_includes (auth_of h f) ''WPA2'') fs)
     \<and> open' (security st)
         = length (filter (\<lambda>f. \<not> str_includes (auth_of h f) ''WPA3''
                               \<and> \<not> str_includes (auth_of h f) ''WPA2''
                               \<and> (str_includes (auth_of h f) ''OPEN'' \<or> auth_of h f = []
                                    \<or> auth_of h f = ''[]'')) fs)
     \<and> legacy (security st)
         = length (filter (\<lambda>f. \<not> str_includes (auth_of h f) ''WPA3''
                               \<and> \<not> str_includes (auth_of h f) ''WPA2''
                               \<and> \<not> (str_includes (auth_of h f) ''OPEN'' \<or> auth_of h f = []
                                    \<or> auth_of h f = ''[]'')) fs)"
    unfolding sec
    using security_counts_fold [of "auth_of h" fs "\<lparr>wpa3 = 0, wpa2 = 0, legacy = 0, open' = 0\<rparr>"]
    by simp
  have step: "wpa3 (security s') + wpa2 (security s') + open' (security s') + legacy (security s')
                = wpa3 (security s) + wpa2 (security s) + open' (security s) + legacy (security s) + 1"
    if "process_feature h f s = Inr s'" for f s s'
    using process_feature_Inr [OF that] security_sum_step [of "auth_of h f" "security s"]
    by simp
  have mixed: "str_includes (auth_of h f) ''WPA3''"
    if "properties f ''AuthMode'' = Some (JStr ''WPA2_WPA3_PSK'')" for f
  proof -
    from that have "auth_of h f = ''WPA2_WPA3_PSK''"
      by (simp add: auth_of_def get_prop_def js_or_def)
        (rule upper_string_WPA2_WPA3_PSK [simplified])
    then show ?thesis by simp
  qed
  have empty: "auth_of h f = []"
    if "properties f ''AuthMode'' = None \<or> properties f ''AuthMode'' = Some (JStr '''')" for f
    using that by (auto simp: auth_of_def get_prop_def js_or_def upper_string_empty)
  have brackets: "auth_of h f = ''[]''" if "properties f ''AuthMode'' = Some (JStr ''[]'')" for f
    using that by (simp add: auth_of_def get_prop_def js_or_def)
      (rule upper_string_brackets [simplified])
  have ends: "\<exists>st'. forEach (process_feature h) fs' (init_stats (length fs')) = Inr st'"
    if "\<forall>f\<in>set fs'. AuthMode_text f" for fs'
    using that by (rule forEach_process_feature_total)
  from total each step mixed empty brackets ends show ?thesis by blast
qed

theorem security_classification_partitions_features_witness:
  "list_all AuthMode_text
   [\<lparr>properties = [''AuthMode'' \<mapsto> JStr ''WPA2_WPA3_PSK''], geometry = Point 0 0\<rparr>,
    \<lparr>properties = [''AuthMode'' \<mapsto> JStr ''''], geometry = Point 0 0\<rparr>,
    \<lparr>properties = [''AuthMode'' \<mapsto> JStr ''[]''], geometry = Point 0 0\<rparr>,
    \<lparr>properties = [''AuthMode'' \<mapsto> JStr ''WEP''], geometry = Point 0 0\<rparr>,
    \<lparr>properties = [''AuthMode'' \<mapsto> JStr ''wpa2_psk''], geometry = Point 0 0\<rparr>,
    \<lparr>properties = Map.empty, geometry = LineString []\<rparr>]
   \<and> (\<exists>st. forEach (process_feature example_host)
   [\<lparr>properties = [''AuthMode'' \<mapsto> JStr ''WPA2_WPA3_PSK''], geometry = Point 0 0\<rparr>,
    \<lparr>properties = [''AuthMode'' \<mapsto> JStr ''''], geometry = Point 0 0\<rparr>,
    \<lparr>properties = [''AuthMode'' \<mapsto> JStr ''[]''], geometry = Point 0 0\<rparr>,
    \<lparr>properties = [''AuthMode'' \<mapsto> JStr ''WEP''], geometry = Point 0 0\<rparr>,
    \<lparr>properties = [''AuthMode'' \<mapsto> JStr ''wpa2_psk''], geometry = Point 0 0\<rparr>,
    \<lparr>properties = Map.empty, geometry = LineString []\<rparr>] (init_stats 6) = Inr st
      \<and> wpa3 (security st) = 1 \<and> wpa2 (security st) = 1 \<and> open' (security st) = 3
      \<and> legacy (security st) = 1)"
proof -
  let ?fs = "[\<lparr>properties = [''AuthMode'' \<mapsto> JStr ''WPA2_WPA3_PSK''], geometry = Point 0 0\<rparr>,
    \<lparr>properties = [''AuthMode'' \<mapsto> JStr ''''], geometry = Point 0 0\<rparr>,
    \<lparr>properties = [''AuthMode'' \<mapsto> JStr ''[]''], geometry = Point 0 0\<rparr>,
    \<lparr>properties = [''AuthMode'' \<mapsto> JStr ''WEP''], geometry = Point 0 0\<rparr>,
    \<lparr>properties = [''AuthMode'' \<mapsto> JStr ''wpa2_psk''], geometry = Point 0 0\<rparr>,
    \<lparr>properties = Map.empty, geometry = LineString []\<rparr>]"
  have h2: "list_all AuthMode_text ?fs" by code_simp
  then have h2': "\<forall>f\<in>set ?fs. AuthMode_text f" by (simp only: list_all_iff)
  have len: "length ?fs = 6" by simp
  obtain st where run: "forEach (process_feature example_host) ?fs (init_stats (length ?fs)) = Inr st"
    using forEach_process_feature_total [OF h2', of example_host "init_stats (length ?fs)"]
    by blast
  have c1: "length (filter (\<lambda>f. str_includes (auth_of example_host f) ''WPA3'') ?fs) = 1"
    by code_simp
  have c2: "length (filter (\<lambda>f. \<not> str_includes (auth_of example_host f) ''WPA3''
                               \<and> str_includes (auth_of example_host f) ''WPA2'') ?fs) = 1"
    by code_simp
  have c3: "length (filter (\<lambda>f. \<not> str_includes (auth_of example_host f) ''WPA3''
                               \<and> \<not> str_includes (auth_of example_host f) ''WPA2''
                               \<and> (str_includes (auth_of example_host f) ''OPEN''
                                    \<or> auth_of example_host f = []
                                    \<or> auth_of example_host f = ''[]'')) ?fs) = 3"
    by code_simp
  have c4: "length (filter (\<lambda>f. \<not> str_includes (auth_of example_host f) ''WPA3''
                               \<and> \<not> str_includes (auth_of example_host f) ''WPA2''
                               \<and> \<not> (str_includes (auth_of example_host f) ''OPEN''
                                    \<or> auth_of example_host f = []
                                    \<or> auth_of example_host f = ''[]'')) ?fs) = 1"
    by code_simp
  from security_classification_partitions_features [OF run]
  have "wpa3 (security st) = 1" and "wpa2 (security st) = 1" and "open' (security st) = 3"
    and "legacy (security st) = 1"
    unfolding c1 c2 c3 c4 by blast+
  with h2 run [unfolded len] show ?thesis by blast
qed




section \<open>Properties of the map filters\<close>

text \<open>
  Claim C8. In the signal filter of the map a feature whose \<^verbatim>\<open>best_rssi\<close> is missing or 0
  is compared as -100; so for every slider value above -100 the callback returns false for
  it, without an exception, and the feature is in no result of \<^verbatim>\<open>updateMapFilters\<close>.
\<close>

theorem zero_best_rssi_coerced_and_excluded:
  assumes rssi: "properties f ''best_rssi'' = None \<or> properties f ''best_rssi'' = Some (JNum 0)"
    and slider: "rssiVal ui = Some t" and t: "- 100 < t"
  shows "js_or (get_prop (properties f) ''best_rssi'') (JNum (- 100)) = JNum (- 100)
     \<and> filter_callback h ui f = Inr False
     \<and> (\<forall>fs out. updateMapFilters h ui fs = Inr out \<longrightarrow> f \<notin> set out)"
proof -
  have sig: "js_or (get_prop (properties f) ''best_rssi'') (JNum (- 100)) = JNum (- 100)"
    using rssi by (auto simp: get_prop_def js_or_def)
  have cb: "filter_callback h ui f = Inr False"
    using slider t by (simp add: filter_callback_def Let_def sig js_lt_def)
  have "f \<notin> set out" if "updateMapFilters h ui fs = Inr out" for fs out
    using js_filter_Inr [OF that [unfolded updateMapFilters_def]] cb by simp
  with sig cb show ?thesis by blast
qed


theorem zero_best_rssi_coerced_and_excluded_witness:
  "properties \<lparr>properties = [''best_rssi'' \<mapsto> JNum 0], geometry = Point 0 0\<rparr> ''best_rssi'' = Some (JNum 0)
   \<and> rssiVal \<lparr>global_search = '''', session_filter = Some ''all'', rssi_slider = Some ''-70'',
         activeVendorFilter = None\<rparr> = Some (- 70)
   \<and> filter_callback example_host
        \<lparr>global_search = '''', session_filter = Some ''all'', rssi_slider = Some ''-70'',
         activeVendorFilter = None\<rparr>
        \<lparr>properties = [''best_rssi'' \<mapsto> JNum 0], geometry = Point 0 0\<rparr> = Inr False
   \<and> updateMapFilters example_host
        \<lparr>global_search = '''', session_filter = Some ''all'', rssi_slider = Some ''-70'',
         activeVendorFilter = None\<rparr>
        [\<lparr>properties = [''best_rssi'' \<mapsto> JNum 0], geometry = Point 0 0\<rparr>,
         \<lparr>properties = [''best_rssi'' \<mapsto> JNum (- 60)], geometry = Point 1 1\<rparr>]
      = Inr [\<lparr>properties = [''best_rssi'' \<mapsto> JNum (- 60)], geometry = Point 1 1\<rparr>]"
proof -
  let ?ui = "\<lparr>global_search = '''', session_filter = Some ''all'', rssi_slider = Some ''-70'',
         activeVendorFilter = None\<rparr>"
  let ?f = "\<lparr>properties = [''best_rssi'' \<mapsto> JNum 0], geometry = Point 0 0\<rparr>"
  have h1: "properties ?f ''best_rssi'' = None \<or> properties ?f ''best_rssi'' = Some (JNum 0)"
    by simp
  have h2: "rssiVal ?ui = Some (- 70)"
    by (simp add: rssiVal_def parseInt_str_m70)
  have h3: "- 100 < (- 70 :: int)"
    by simp
  note main = zero_best_rssi_coerced_and_excluded [OF h1 h2 h3, of example_host]
  have cb: "filter_callback example_host ?ui ?f = Inr False"
    using main by blast
  show ?thesis
    using cb h2
    by (simp add: updateMapFilters_def)
       (simp add: filter_callback_def js_or_def get_prop_def js_lt_def selectedSession_def
          session_passes_def lower_string_empty)
qed

section \<open>Properties of the data pipeline\<close>

text \<open>
  Claim C4. A MAC address whose locally-administered bit is set resolves to
  \<^verbatim>\<open>Randomized\<close> whatever the table holds; one whose bit is clear and whose prefix has no
  entry resolves to \<^verbatim>\<open>Unknown\<close>, in particular with an empty or unavailable registry.
\<close>

theorem randomized_before_lookup_unknown_without_match:
  "(locally_administered m \<longrightarrow> resolve table m = ''Randomized'')
   \<and> (\<not> locally_administered m \<and> table (oui_prefix m) = None \<longrightarrow> resolve table m = ''Unknown'')
   \<and> (\<not> locally_administered m \<longrightarrow>
        resolve (load_table Unavailable) m = ''Unknown''
        \<and> resolve (load_table (Registry [])) m = ''Unknown'')"
  by (simp add: resolve_def load_table_def)

theorem randomized_before_lookup_unknown_without_match_witness:
  "locally_administered 0x02AABBCCDDEE
   \<and> load_table (Registry [(0x02AABB, ''Acme''), (0x001122, ''Initech'')]) (oui_prefix 0x02AABBCCDDEE)
       = Some ''Acme''
   \<and> resolve (load_table (Registry [(0x02AABB, ''Acme''), (0x001122, ''Initech'')])) 0x02AABBCCDDEE
       = ''Randomized''
   \<and> \<not> locally_administered 0x0050C2334455
   \<and> load_table (Registry [(0x02AABB, ''Acme''), (0x001122, ''Initech'')]) (oui_prefix 0x0050C2334455)
       = None
   \<and> resolve (load_table (Registry [(0x02AABB, ''Acme''), (0x001122, ''Initech'')])) 0x0050C2334455
       = ''Unknown''
   \<and> resolve (load_table Unavailable) 0x0050C2334455 = ''Unknown''
   \<and> resolve (load_table (Registry [])) 0x0050C2334455 = ''Unknown''
   \<and> resolve (load_table (Registry [(0x02AABB, ''Acme''), (0x001122, ''Initech'')])) 0x001122334455
       = ''Initech''"
proof -
  let ?t = "load_table (Registry [(0x02AABB, ''Acme''), (0x001122, ''Initech'')])"
  have la: "locally_administered 0x02AABBCCDDEE"
    by (simp add: locally_administered_def first_octet_def)
  have hit: "?t (oui_prefix 0x02AABBCCDDEE) = Some ''Acme''"
    by (simp add: load_table_def oui_prefix_def)
  have nla: "\<not> locally_administered 0x0050C2334455"
    by (simp add: locally_administered_def first_octet_def)
  have miss: "?t (oui_prefix 0x0050C2334455) = None"
    by (simp add: load_table_def oui_prefix_def)
  note main1 = randomized_before_lookup_unknown_without_match [of "0x02AABBCCDDEE" ?t]
  note main2 = randomized_before_lookup_unknown_without_match [of "0x0050C2334455" ?t]
  have r1: "resolve ?t 0x02AABBCCDDEE = ''Randomized''"
    using main1 la by blast
  have r2: "resolve ?t 0x0050C2334455 = ''Unknown''"
    using main2 nla miss by blast
  have r3: "resolve (load_table Unavailable) 0x0050C2334455 = ''Unknown''
     \<and> resolve (load_table (Registry [])) 0x0050C2334455 = ''Unknown''"
    using main2 nla by blast
  have r4: "resolve ?t 0x001122334455 = ''Initech''"
    by (simp add: resolve_def load_table_def oui_prefix_def locally_administered_def first_octet_def)
  from la hit r1 nla miss r2 r3 r4 show ?thesis by blast
qed

lemma strongest_mem: "strongest best obs \<in> set (best # obs)"
  by (induction obs arbitrary: best) auto

lemma strongest_ge_best: "rssi best \<le> rssi (strongest best obs)"
proof (induction obs arbitrary: best)
  case Nil
  then show ?case by simp
next
  case (Cons ob obs)
  show ?case
    using Cons.IH [of "if rssi best < rssi ob then ob else best"]
    by (simp split: if_splits)
qed

lemma strongest_ge: "ob \<in> set (best # obs) \<Longrightarrow> rssi ob \<le> rssi (strongest best obs)"
proof (induction obs arbitrary: best)
  case Nil
  then show ?case by simp
next
  case (Cons x obs)
  let ?b = "if rssi best < rssi x then x else best"
  from Cons.prems consider "ob = best" | "ob = x" | "ob \<in> set obs" by auto
  then show ?case
  proof cases
    case 1
    have "rssi best \<le> rssi ?b" by simp
    also have "\<dots> \<le> rssi (strongest ?b obs)" by (rule strongest_ge_best)
    finally show ?thesis using 1 by simp
  next
    case 2
    have "rssi x \<le> rssi ?b" by simp
    also have "\<dots> \<le> rssi (strongest ?b obs)" by (rule strongest_ge_best)
    finally show ?thesis using 2 by simp
  next
    case 3
    then show ?thesis using Cons.IH [of ?b] by simp
  qed
qed

lemma strongest_Max: "rssi (strongest best obs) = Max (rssi ` set (best # obs))"
proof (rule sym, rule Max_eqI)
  show "finite (rssi ` set (best # obs))" by simp
  show "y \<le> rssi (strongest best obs)" if "y \<in> rssi ` set (best # obs)" for y
    using that strongest_ge by blast
  show "rssi (strongest best obs) \<in> rssi ` set (best # obs)"
    using strongest_mem by blast
qed

lemma fold_min_le: "fold min xs (x::int) \<le> x"
proof (induction xs arbitrary: x)
  case Nil
  then show ?case by simp
next
  case (Cons a xs)
  have "fold min xs (min a x) \<le> min a x" by (rule Cons.IH)
  then show ?case by simp
qed

lemma fold_max_ge: "(x::int) \<le> fold max xs x"
proof (induction xs arbitrary: x)
  case Nil
  then show ?case by simp
next
  case (Cons a xs)
  have "max a x \<le> fold max xs (max a x)" by (rule Cons.IH)
  then show ?case by simp
qed

lemma map_filter_keys:
  assumes "\<forall>m\<in>set ms. \<exists>a. f m = Some a \<and> g a = m"
  shows "map g (List.map_filter f ms) = ms"
  using assms by (induction ms) (auto simp: map_filter_simps)

lemma set_map_filter:
  "a \<in> set (List.map_filter f ms) \<longleftrightarrow> (\<exists>m\<in>set ms. f m = Some a)"
  by (induction ms) (auto simp: map_filter_simps split: option.splits)

lemma aggregate_group_mac:
  assumes "m \<in> mac ` set observations"
  shows "\<exists>a. aggregate_group table (filter (\<lambda>ob. mac ob = m) observations) = Some a \<and> apMac a = m"
proof -
  from assms have "filter (\<lambda>ob. mac ob = m) observations \<noteq> []"
    by (auto simp: filter_empty_conv)
  then obtain ob obs where grp: "filter (\<lambda>ob. mac ob = m) observations = ob # obs"
    by (cases "filter (\<lambda>ob. mac ob = m) observations") auto
  then have "ob \<in> set (filter (\<lambda>ob. mac ob = m) observations)" by simp
  then have "mac ob = m" by simp
  then show ?thesis by (simp add: aggregate_group_def grp)
qed

lemma aggregate_groups_macs:
  "map apMac (aggregate_groups table observations) = remdups (map mac observations)"
  unfolding aggregate_groups_def
  by (rule map_filter_keys) (use aggregate_group_mac in auto)

lemma aggregate_groups_member:
  assumes "a \<in> set (aggregate_groups table observations)"
  shows "apMac a \<in> mac ` set observations
     \<and> aggregate_group table (filter (\<lambda>ob. mac ob = apMac a) observations) = Some a"
proof -
  from assms obtain m where m: "m \<in> mac ` set observations"
    and a: "aggregate_group table (filter (\<lambda>ob. mac ob = m) observations) = Some a"
    by (auto simp: aggregate_groups_def set_map_filter)
  from aggregate_group_mac [OF m, of table] a have "apMac a = m" by simp
  with m a show ?thesis by simp
qed

text \<open>The jitter pass changes the representative point of an aggregate and nothing else.\<close>

lemma jitter_macs: "map apMac (jitter offset aggregates) = map apMac aggregates"
  by (simp add: jitter_def comp_def)

lemma jitter_member:
  assumes "a \<in> set (jitter offset aggregates)"
  shows "\<exists>b\<in>set aggregates.
           a = b\<lparr>representativePoint :=
                   (if shares_point aggregates (representativePoint b)
                    then (fst (representativePoint b) + fst (offset (apMac b)),
                          snd (representativePoint b) + snd (offset (apMac b)))
                    else representativePoint b)\<rparr>"
proof -
  from assms obtain b where b: "b \<in> set aggregates"
    and a: "a = (if shares_point aggregates (representativePoint b)
                 then b\<lparr>representativePoint :=
                         (fst (representativePoint b) + fst (offset (apMac b)),
                          snd (representativePoint b) + snd (offset (apMac b)))\<rparr>
                 else b)"
    by (auto simp: jitter_def)
  from a have "a = b\<lparr>representativePoint :=
                   (if shares_point aggregates (representativePoint b)
                    then (fst (representativePoint b) + fst (offset (apMac b)),
                          snd (representativePoint b) + snd (offset (apMac b)))
                    else representativePoint b)\<rparr>"
    by simp
  with b show ?thesis by blast
qed

lemma merge_macs:
  "map apMac (merge offset table observations) = remdups (map mac observations)"
  by (simp add: merge_def jitter_macs aggregate_groups_macs)

lemma merge_member:
  assumes "a \<in> set (merge offset table observations)"
  shows "\<exists>b. aggregate_group table (filter (\<lambda>ob. mac ob = apMac a) observations) = Some b
     \<and> a = b\<lparr>representativePoint :=
               (if shares_point (aggregate_groups table observations) (representativePoint b)
                then (fst (representativePoint b) + fst (offset (apMac b)),
                      snd (representativePoint b) + snd (offset (apMac b)))
                else representativePoint b)\<rparr>"
proof -
  from assms obtain b where b: "b \<in> set (aggregate_groups table observations)"
    and a: "a = b\<lparr>representativePoint :=
               (if shares_point (aggregate_groups table observations) (representativePoint b)
                then (fst (representativePoint b) + fst (offset (apMac b)),
                      snd (representativePoint b) + snd (offset (apMac b)))
                else representativePoint b)\<rparr>"
    unfolding merge_def using jitter_member by blast
  from a have "apMac a = apMac b" by simp
  with aggregate_groups_member [OF b] a show ?thesis by auto
qed

text \<open>
  Claim C1, as stated, fails once the jitter pass has run: two access points observed at
  the same coordinate (45.4743, 7.8927) are both moved, so neither aggregate has the
  coordinate of an observation as its representative point. (With the offsets of
  \<^term>\<open>example_offset\<close>; any scheme that gives the two distinct points moves at least one.)
\<close>

theorem co_located_points_are_jittered_counterexample:
  "map (\<lambda>a. (apMac a, bestRssi a, representativePoint a))
     (merge example_offset Map.empty
        [\<lparr>mac = 0x0050C2334455, ssid = ''home'', authMode = ''WPA2_PSK'', channel = Some 6,
          rssi = - 70, lat = 45.4743, lon = 7.8927, timestamp = 100, sessionId = ''s1''\<rparr>,
         \<lparr>mac = 0x001122334455, ssid = ''cafe'', authMode = ''OPEN'', channel = Some 11,
          rssi = - 80, lat = 45.4743, lon = 7.8927, timestamp = 150, sessionId = ''s1''\<rparr>])
     = [(0x0050C2334455, - 70, (45.474301, 7.892704)), (0x001122334455, - 80, (45.474302, 7.892701))]
   \<and> (45.474301, 7.892704) \<noteq> (45.4743 :: real, 7.8927 :: real)
   \<and> (45.474302, 7.892701) \<noteq> (45.4743 :: real, 7.8927 :: real)"
  by (simp add: merge_def jitter_def shares_point_def aggregate_groups_def map_filter_simps
      aggregate_group_def resolve_def locally_administered_def first_octet_def
      example_offset_def)

text \<open>
  Claim C1, amended. Every mac among the observations has an aggregate in the result of the
  merge; the \<^verbatim>\<open>bestRssi\<close> of an aggregate is the maximum rssi among the observations of its
  mac. One of these observations has that rssi and gives the \<^verbatim>\<open>representativePoint\<close>: its
  (lat, lon) as it is when no other aggregate has the same point before the jitter pass,
  and otherwise its (lat, lon) moved by the jitter offset of the mac.
\<close>

theorem merge_best_rssi_and_representative_point:
  "(\<forall>m\<in>mac ` set observations. \<exists>a\<in>set (merge offset table observations). apMac a = m)
   \<and> (\<forall>a\<in>set (merge offset table observations).
        bestRssi a = Max (rssi ` {ob \<in> set observations. mac ob = apMac a})
        \<and> (\<exists>ob\<in>set observations. mac ob = apMac a \<and> rssi ob = bestRssi a
               \<and> representativePoint a =
                   (if shares_point (aggregate_groups table observations) (lat ob, lon ob)
                    then (lat ob + fst (offset (apMac a)), lon ob + snd (offset (apMac a)))
                    else (lat ob, lon ob))))"
proof -
  have every: "\<exists>a\<in>set (merge offset table observations). apMac a = m"
    if "m \<in> mac ` set observations" for m
  proof -
    from that have "m \<in> set (map apMac (merge offset table observations))"
      by (simp add: merge_macs)
    then show ?thesis by auto
  qed
  have best: "bestRssi a = Max (rssi ` {ob \<in> set observations. mac ob = apMac a})
        \<and> (\<exists>ob\<in>set observations. mac ob = apMac a \<and> rssi ob = bestRssi a
               \<and> representativePoint a =
                   (if shares_point (aggregate_groups table observations) (lat ob, lon ob)
                    then (lat ob + fst (offset (apMac a)), lon ob + snd (offset (apMac a)))
                    else (lat ob, lon ob)))"
    if "a \<in> set (merge offset table observations)" for a
  proof -
    let ?grp = "filter (\<lambda>ob. mac ob = apMac a) observations"
    let ?ags = "aggregate_groups table observations"
    from merge_member [OF that] obtain b where agg: "aggregate_group table ?grp = Some b"
      and ab: "a = b\<lparr>representativePoint :=
               (if shares_point ?ags (representativePoint b)
                then (fst (representativePoint b) + fst (offset (apMac b)),
                      snd (representativePoint b) + snd (offset (apMac b)))
                else representativePoint b)\<rparr>"
      by blast
    from agg obtain ob obs where grp: "?grp = ob # obs"
      by (cases ?grp) (auto simp: aggregate_group_def)
    let ?s = "strongest ob obs"
    from agg grp have b: "bestRssi b = rssi ?s" "representativePoint b = (lat ?s, lon ?s)"
      by (auto simp: aggregate_group_def)
    from ab have same: "bestRssi a = bestRssi b" "apMac a = apMac b" by simp_all
    from ab have "representativePoint a =
               (if shares_point ?ags (representativePoint b)
                then (fst (representativePoint b) + fst (offset (apMac b)),
                      snd (representativePoint b) + snd (offset (apMac b)))
                else representativePoint b)"
      by simp
    then have pt: "representativePoint a =
               (if shares_point ?ags (lat ?s, lon ?s)
                then (lat ?s + fst (offset (apMac a)), lon ?s + snd (offset (apMac a)))
                else (lat ?s, lon ?s))"
      by (simp add: b(2) same(2))
    have set_grp: "set (ob # obs) = {ob \<in> set observations. mac ob = apMac a}"
      unfolding grp [symmetric] by auto
    have "bestRssi a = Max (rssi ` set (ob # obs))"
      using b(1) same(1) by (simp only: strongest_Max)
    then have max: "bestRssi a = Max (rssi ` {ob \<in> set observations. mac ob = apMac a})"
      by (simp only: set_grp)
    have "?s \<in> set (ob # obs)" by (rule strongest_mem)
    then have "?s \<in> {ob \<in> set observations. mac ob = apMac a}"
      by (simp only: set_grp)
    then have mem: "?s \<in> set observations" "mac ?s = apMac a"
      by simp_all
    have "\<exists>ob\<in>set observations. mac ob = apMac a \<and> rssi ob = bestRssi a
               \<and> representativePoint a =
                   (if shares_point ?ags (lat ob, lon ob)
                    then (lat ob + fst (offset (apMac a)), lon ob + snd (offset (apMac a)))
                    else (lat ob, lon ob))"
      by (rule bexI [OF _ mem(1)]) (simp add: b(1) same(1) mem(2) pt)
    with max show ?thesis by (rule conjI)
  qed
  from every best show ?thesis by blast
qed

theorem merge_best_rssi_and_representative_point_witness:
  "(\<exists>a. a \<in> set (merge example_offset Map.empty
        [\<lparr>mac = 0x0050C2334455, ssid = ''home'', authMode = ''WPA2_PSK'', channel = Some 6,
          rssi = - 70, lat = 45.4743, lon = 7.8927, timestamp = 100, sessionId = ''s1''\<rparr>,
         \<lparr>mac = 0x0050C2334455, ssid = ''home'', authMode = ''WPA2_PSK'', channel = Some 6,
          rssi = - 40, lat = 45.4750, lon = 7.8930, timestamp = 200, sessionId = ''s2''\<rparr>,
         \<lparr>mac = 0x001122334455, ssid = ''cafe'', authMode = ''OPEN'', channel = Some 11,
          rssi = - 80, lat = 45.4750, lon = 7.8930, timestamp = 150, sessionId = ''s1''\<rparr>,
         \<lparr>mac = 0x02AABBCCDDEE, ssid = '''', authMode = '''', channel = None,
          rssi = - 90, lat = 45.4743, lon = 7.8927, timestamp = 160, sessionId = ''s1''\<rparr>])
      \<and> apMac a = 0x0050C2334455 \<and> bestRssi a = - 40
      \<and> representativePoint a = (45.475001, 7.893004))
   \<and> (\<exists>a. a \<in> set (merge example_offset Map.empty
        [\<lparr>mac = 0x0050C2334455, ssid = ''home'', authMode = ''WPA2_PSK'', channel = Some 6,
          rssi = - 70, lat = 45.4743, lon = 7.8927, timestamp = 100, sessionId = ''s1''\<rparr>,
         \<lparr>mac = 0x0050C2334455, ssid = ''home'', authMode = ''WPA2_PSK'', channel = Some 6,
          rssi = - 40, lat = 45.4750, lon = 7.8930, timestamp = 200, sessionId = ''s2''\<rparr>,
         \<lparr>mac = 0x001122334455, ssid = ''cafe'', authMode = ''OPEN'', channel = Some 11,
          rssi = - 80, lat = 45.4750, lon = 7.8930, timestamp = 150, sessionId = ''s1''\<rparr>,
         \<lparr>mac = 0x02AABBCCDDEE, ssid = '''', authMode = '''', channel = None,
          rssi = - 90, lat = 45.4743, lon = 7.8927, timestamp = 160, sessionId = ''s1''\<rparr>])
      \<and> apMac a = 0x02AABBCCDDEE \<and> bestRssi a = - 90
      \<and> representativePoint a = (45.4743, 7.8927))"
proof -
  let ?o1 = "\<lparr>mac = 0x0050C2334455, ssid = ''home'', authMode = ''WPA2_PSK'', channel = Some 6,
          rssi = - 70, lat = 45.4743, lon = 7.8927, timestamp = 100, sessionId = ''s1''\<rparr>"
  let ?o2 = "\<lparr>mac = 0x0050C2334455, ssid = ''home'', authMode = ''WPA2_PSK'', channel = Some 6,
          rssi = - 40, lat = 45.4750, lon = 7.8930, timestamp = 200, sessionId = ''s2''\<rparr>"
  let ?o3 = "\<lparr>mac = 0x001122334455, ssid = ''cafe'', authMode = ''OPEN'', channel = Some 11,
          rssi = - 80, lat = 45.4750, lon = 7.8930, timestamp = 150, sessionId = ''s1''\<rparr>"
  let ?o4 = "\<lparr>mac = 0x02AABBCCDDEE, ssid = '''', authMode = '''', channel = None,
          rssi = - 90, lat = 45.4743, lon = 7.8927, timestamp = 160, sessionId = ''s1''\<rparr>"
  let ?obs = "[?o1, ?o2, ?o3, ?o4]"
  let ?ags = "aggregate_groups Map.empty ?obs"
  note main = merge_best_rssi_and_representative_point [of ?obs example_offset Map.empty]
  have shared: "shares_point ?ags (45.4750, 7.8930)"
    by (simp add: shares_point_def aggregate_groups_def map_filter_simps aggregate_group_def)
  have alone: "\<not> shares_point ?ags (45.4743, 7.8927)"
    by (simp add: shares_point_def aggregate_groups_def map_filter_simps aggregate_group_def)
  have first: "\<exists>a. a \<in> set (merge example_offset Map.empty ?obs)
      \<and> apMac a = 0x0050C2334455 \<and> bestRssi a = - 40
      \<and> representativePoint a = (45.475001, 7.893004)"
  proof -
    have "(0x0050C2334455 :: mac_address) \<in> mac ` set ?obs" by simp
    with main obtain a where a: "a \<in> set (merge example_offset Map.empty ?obs)"
      "apMac a = 0x0050C2334455"
      by blast
    have grp: "{ob \<in> set ?obs. mac ob = 0x0050C2334455} = set [?o1, ?o2]"
      unfolding set_filter [symmetric] by simp
    from main a have "bestRssi a = Max (rssi ` {ob \<in> set ?obs. mac ob = 0x0050C2334455})"
      by auto
    then have best: "bestRssi a = - 40"
      unfolding grp by simp
    from main a obtain ob where ob: "ob \<in> set ?obs" "mac ob = 0x0050C2334455"
      "rssi ob = bestRssi a"
      "representativePoint a =
         (if shares_point ?ags (lat ob, lon ob)
          then (lat ob + fst (example_offset (apMac a)), lon ob + snd (example_offset (apMac a)))
          else (lat ob, lon ob))"
      by (metis (no_types, lifting))
    from ob(1,3) best have "ob = ?o2" by auto
    with ob(4) shared have "representativePoint a
        = (45.4750 + fst (example_offset 0x0050C2334455),
           7.8930 + snd (example_offset 0x0050C2334455))"
      by (simp add: a(2))
    then have "representativePoint a = (45.475001, 7.893004)"
      by (simp add: example_offset_def)
    with a best show ?thesis by blast
  qed
  have second: "\<exists>a. a \<in> set (merge example_offset Map.empty ?obs)
      \<and> apMac a = 0x02AABBCCDDEE \<and> bestRssi a = - 90
      \<and> representativePoint a = (45.4743, 7.8927)"
  proof -
    have "(0x02AABBCCDDEE :: mac_address) \<in> mac ` set ?obs" by simp
    with main obtain a where a: "a \<in> set (merge example_offset Map.empty ?obs)"
      "apMac a = 0x02AABBCCDDEE"
      by blast
    have grp: "{ob \<in> set ?obs. mac ob = 0x02AABBCCDDEE} = set [?o4]"
      unfolding set_filter [symmetric] by simp
    from main a have "bestRssi a = Max (rssi ` {ob \<in> set ?obs. mac ob = 0x02AABBCCDDEE})"
      by auto
    then have best: "bestRssi a = - 90"
      unfolding grp by simp
    from main a obtain ob where ob: "ob \<in> set ?obs" "mac ob = 0x02AABBCCDDEE"
      "rssi ob = bestRssi a"
      "representativePoint a =
         (if shares_point ?ags (lat ob, lon ob)
          then (lat ob + fst (example_offset (apMac a)), lon ob + snd (example_offset (apMac a)))
          else (lat ob, lon ob))"
      by (metis (no_types, lifting))
    from ob(1,2) have "ob = ?o4" by auto
    with ob(4) alone have "representativePoint a = (45.4743, 7.8927)"
      by simp
    with a best show ?thesis by blast
  qed
  from first second show ?thesis by (rule conjI)
qed

text \<open>
  Claim C2. The aggregates of a merge have pairwise different macs, one for each mac
  observed; each has \<^verbatim>\<open>firstSeen\<close> at most \<^verbatim>\<open>lastSeen\<close>, a non-empty set of session
  ids and an \<^verbatim>\<open>encounterCount\<close> equal to the number of observations of its mac; and the
  access-point features of the emitted document are these aggregates, one feature each.
\<close>

theorem merged_aggregates_invariants:
  "map apMac (merge offset table observations) = remdups (map mac observations)
   \<and> distinct (map apMac (merge offset table observations))
   \<and> (\<forall>a\<in>set (merge offset table observations).
        firstSeen a \<le> lastSeen a \<and> sessionIds a \<noteq> {}
        \<and> encounterCount a = length (filter (\<lambda>ob. mac ob = apMac a) observations))
   \<and> allFeatures (features (emit enc (merge offset table observations) routes sessions))
       = map (ap_feature enc) (merge offset table observations)"
proof -
  have macs: "map apMac (merge offset table observations) = remdups (map mac observations)"
    by (rule merge_macs)
  then have dist: "distinct (map apMac (merge offset table observations))"
    by simp
  have inv: "firstSeen a \<le> lastSeen a \<and> sessionIds a \<noteq> {}
        \<and> encounterCount a = length (filter (\<lambda>ob. mac ob = apMac a) observations)"
    if "a \<in> set (merge offset table observations)" for a
  proof -
    let ?grp = "filter (\<lambda>ob. mac ob = apMac a) observations"
    from merge_member [OF that] obtain b where agg: "aggregate_group table ?grp = Some b"
      and ab: "a = b\<lparr>representativePoint :=
               (if shares_point (aggregate_groups table observations) (representativePoint b)
                then (fst (representativePoint b) + fst (offset (apMac b)),
                      snd (representativePoint b) + snd (offset (apMac b)))
                else representativePoint b)\<rparr>"
      by blast
    from ab have same: "firstSeen a = firstSeen b" "lastSeen a = lastSeen b"
        "sessionIds a = sessionIds b" "encounterCount a = encounterCount b"
      by simp_all
    from agg obtain ob obs where grp: "?grp = ob # obs"
      by (cases ?grp) (auto simp: aggregate_group_def)
    from agg grp have b: "firstSeen b = fold min (map timestamp obs) (timestamp ob)"
      "lastSeen b = fold max (map timestamp obs) (timestamp ob)"
      "sessionIds b = set (map sessionId (ob # obs))"
      "encounterCount b = length (ob # obs)"
      by (auto simp: aggregate_group_def)
    have a: "firstSeen a = fold min (map timestamp obs) (timestamp ob)"
      "lastSeen a = fold max (map timestamp obs) (timestamp ob)"
      "sessionIds a = set (map sessionId (ob # obs))"
      "encounterCount a = length (ob # obs)"
      by (simp_all only: same b)
    have "firstSeen a \<le> timestamp ob" unfolding a by (rule fold_min_le)
    also have "timestamp ob \<le> lastSeen a" unfolding a by (rule fold_max_ge)
    finally have "firstSeen a \<le> lastSeen a" .
    moreover have "sessionIds a \<noteq> {}" unfolding a by simp
    moreover have "encounterCount a = length ?grp" unfolding a grp ..
    ultimately show ?thesis by blast
  qed
  have doc: "allFeatures (features (emit enc (merge offset table observations) routes sessions))
       = map (ap_feature enc) (merge offset table observations)"
    by (simp add: allFeatures_def emit_def filter_map comp_def ap_feature_def route_feature_def
        get_prop_def filter_empty_conv)
  from macs dist inv doc show ?thesis by blast
qed

theorem merged_aggregates_invariants_witness:
  "map apMac (merge example_offset Map.empty
        [\<lparr>mac = 0x0050C2334455, ssid = ''home'', authMode = ''WPA2_PSK'', channel = Some 6,
          rssi = - 70, lat = 45.4743, lon = 7.8927, timestamp = 100, sessionId = ''s1''\<rparr>,
         \<lparr>mac = 0x02AABBCCDDEE, ssid = '''', authMode = '''', channel = None,
          rssi = - 80, lat = 45.4743, lon = 7.8927, timestamp = 150, sessionId = ''s1''\<rparr>,
         \<lparr>mac = 0x0050C2334455, ssid = ''home'', authMode = ''WPA2_PSK'', channel = Some 6,
          rssi = - 40, lat = 45.4750, lon = 7.8930, timestamp = 200, sessionId = ''s2''\<rparr>])
     = [0x02AABBCCDDEE, 0x0050C2334455]
   \<and> (\<exists>a. a \<in> set (merge example_offset Map.empty
        [\<lparr>mac = 0x0050C2334455, ssid = ''home'', authMode = ''WPA2_PSK'', channel = Some 6,
          rssi = - 70, lat = 45.4743, lon = 7.8927, timestamp = 100, sessionId = ''s1''\<rparr>,
         \<lparr>mac = 0x02AABBCCDDEE, ssid = '''', authMode = '''', channel = None,
          rssi = - 80, lat = 45.4743, lon = 7.8927, timestamp = 150, sessionId = ''s1''\<rparr>,
         \<lparr>mac = 0x0050C2334455, ssid = ''home'', authMode = ''WPA2_PSK'', channel = Some 6,
          rssi = - 40, lat = 45.4750, lon = 7.8930, timestamp = 200, sessionId = ''s2''\<rparr>])
        \<and> apMac a = 0x0050C2334455 \<and> firstSeen a = 100 \<and> lastSeen a = 200
        \<and> firstSeen a \<le> lastSeen a \<and> sessionIds a = {''s1'', ''s2''} \<and> sessionIds a \<noteq> {}
        \<and> encounterCount a = 2)"
proof -
  let ?o1 = "\<lparr>mac = 0x0050C2334455, ssid = ''home'', authMode = ''WPA2_PSK'', channel = Some 6,
          rssi = - 70, lat = 45.4743, lon = 7.8927, timestamp = 100, sessionId = ''s1''\<rparr>"
  let ?o2 = "\<lparr>mac = 0x0050C2334455, ssid = ''home'', authMode = ''WPA2_PSK'', channel = Some 6,
          rssi = - 40, lat = 45.4750, lon = 7.8930, timestamp = 200, sessionId = ''s2''\<rparr>"
  let ?o3 = "\<lparr>mac = 0x02AABBCCDDEE, ssid = '''', authMode = '''', channel = None,
          rssi = - 80, lat = 45.4743, lon = 7.8927, timestamp = 150, sessionId = ''s1''\<rparr>"
  let ?obs = "[?o1, ?o3, ?o2]"
  let ?a = "\<lparr>apMac = 0x0050C2334455, vendor = ''Unknown'', bestRssi = - 40,
            representativePoint = (45.4750, 7.8930), firstSeen = 100, lastSeen = 200,
            sessionIds = {''s1'', ''s2''}, encounterCount = 2\<rparr>"
  note main = merged_aggregates_invariants
    [of example_offset Map.empty ?obs "\<lambda>a. Map.empty" "[]" "[]"]
  have macs: "map apMac (merge example_offset Map.empty ?obs) = [0x02AABBCCDDEE, 0x0050C2334455]"
    using main [THEN conjunct1] by simp
  have mem: "?a \<in> set (merge example_offset Map.empty ?obs)"
    by (simp add: merge_def jitter_def shares_point_def aggregate_groups_def map_filter_simps
        aggregate_group_def resolve_def locally_administered_def first_octet_def)
  from main mem have "firstSeen ?a \<le> lastSeen ?a \<and> sessionIds ?a \<noteq> {}
      \<and> encounterCount ?a = length (filter (\<lambda>ob. mac ob = apMac ?a) ?obs)"
    by blast
  with macs mem show ?thesis
    by (intro conjI exI [of _ ?a]) simp_all
qed

section \<open>Properties of the layer split and of the session filter\<close>

lemma set_allFeatures:
  "f \<in> set (allFeatures fs) \<longleftrightarrow> f \<in> set fs \<and> get_prop (properties f) ''layer'' = JStr ''access_points''"
  by (simp add: allFeatures_def)

lemma set_routeFeatures:
  "f \<in> set (routeFeatures fs) \<longleftrightarrow> f \<in> set fs \<and> get_prop (properties f) ''layer'' = JStr ''route''"
  by (simp add: routeFeatures_def)

lemma layer_ap_feature: "get_prop (properties (ap_feature enc a)) ''layer'' = JStr ''access_points''"
  by (simp add: ap_feature_def get_prop_def)

lemma layer_route_feature: "get_prop (properties (route_feature r)) ''layer'' = JStr ''route''"
  by (simp add: route_feature_def get_prop_def)

lemma allFeatures_emit:
  "allFeatures (features (emit enc aggregates routes sessions)) = map (ap_feature enc) aggregates"
  by (simp add: allFeatures_def emit_def filter_map comp_def layer_ap_feature layer_route_feature)

lemma routeFeatures_emit:
  "routeFeatures (features (emit enc aggregates routes sessions))
     = map route_feature (filter (\<lambda>r. route_points r \<noteq> []) routes)"
  by (simp add: routeFeatures_def emit_def filter_map comp_def layer_ap_feature layer_route_feature)

text \<open>
  Claim C6. Every feature of an emitted document is tagged \<^verbatim>\<open>access_points\<close> and is a
  point, or is tagged \<^verbatim>\<open>route\<close> and is a line. The map page splits the features of a
  document by this tag alone: the features tagged \<^verbatim>\<open>access_points\<close> go to the point
  source (so does every feature the filters later hand to it), those tagged \<^verbatim>\<open>route\<close> to
  the route source, and a feature with any other tag to neither. On an emitted document
  the page recovers the point features of the aggregates and the line features of the
  non-empty routes.
\<close>

theorem layer_tag_partitions_features:
  "(\<forall>f\<in>set (features (emit enc aggregates routes sessions)).
      (get_prop (properties f) ''layer'' = JStr ''access_points'' \<and> is_point (geometry f))
      \<or> (get_prop (properties f) ''layer'' = JStr ''route'' \<and> is_line (geometry f)))
   \<and> allFeatures (features (emit enc aggregates routes sessions)) = map (ap_feature enc) aggregates
   \<and> routeFeatures (features (emit enc aggregates routes sessions))
       = map route_feature (filter (\<lambda>r. route_points r \<noteq> []) routes)
   \<and> (\<forall>fs f. f \<in> set (allFeatures fs) \<longleftrightarrow>
         f \<in> set fs \<and> get_prop (properties f) ''layer'' = JStr ''access_points'')
   \<and> (\<forall>fs f. f \<in> set (routeFeatures fs) \<longleftrightarrow>
         f \<in> set fs \<and> get_prop (properties f) ''layer'' = JStr ''route'')
   \<and> (\<forall>fs f. get_prop (properties f) ''layer'' \<noteq> JStr ''access_points''
         \<and> get_prop (properties f) ''layer'' \<noteq> JStr ''route''
         \<longrightarrow> f \<notin> set (allFeatures fs) \<and> f \<notin> set (routeFeatures fs))
   \<and> (\<forall>fs h ui out f. updateMapFilters h ui (allFeatures fs) = Inr out \<and> f \<in> set out
         \<longrightarrow> f \<in> set fs \<and> get_prop (properties f) ''layer'' = JStr ''access_points'')"
proof -
  have emitted: "(get_prop (properties f) ''layer'' = JStr ''access_points'' \<and> is_point (geometry f))
      \<or> (get_prop (properties f) ''layer'' = JStr ''route'' \<and> is_line (geometry f))"
    if "f \<in> set (features (emit enc aggregates routes sessions))" for f
  proof -
    from that consider a where "f = ap_feature enc a" | r where "f = route_feature r"
      by (auto simp: emit_def)
    then show ?thesis
    proof cases
      case 1
      then show ?thesis by (simp add: layer_ap_feature) (simp add: ap_feature_def is_point_def)
    next
      case 2
      then show ?thesis by (simp add: layer_route_feature) (simp add: route_feature_def is_line_def)
    qed
  qed
  have shown: "f \<in> set fs \<and> get_prop (properties f) ''layer'' = JStr ''access_points''"
    if "updateMapFilters h ui (allFeatures fs) = Inr out \<and> f \<in> set out" for fs h ui out f
  proof -
    from that have "out = filter (\<lambda>x. filter_callback h ui x = Inr True) (allFeatures fs)"
      by (simp add: updateMapFilters_def js_filter_Inr)
    with that have "f \<in> set (allFeatures fs)" by simp
    then show ?thesis by (simp only: set_allFeatures)
  qed
  have other: "f \<notin> set (allFeatures fs) \<and> f \<notin> set (routeFeatures fs)"
    if "get_prop (properties f) ''layer'' \<noteq> JStr ''access_points''
         \<and> get_prop (properties f) ''layer'' \<noteq> JStr ''route''" for fs f
    using that by (simp add: set_allFeatures set_routeFeatures)
  from emitted allFeatures_emit routeFeatures_emit set_allFeatures set_routeFeatures other shown
  show ?thesis by blast
qed

theorem layer_tag_partitions_features_witness:
  "allFeatures (features (emit (\<lambda>a. [''best_rssi'' \<mapsto> JNum (bestRssi a)])
       [\<lparr>apMac = 0x0050C2334455, vendor = ''Unknown'', bestRssi = - 40,
         representativePoint = (45.4750, 7.8930), firstSeen = 100, lastSeen = 200,
         sessionIds = {''s1''}, encounterCount = 2\<rparr>]
       [\<lparr>route_session = ''s1'', route_points = [(7.8927, 45.4743), (7.8930, 45.4750)]\<rparr>,
        \<lparr>route_session = ''s2'', route_points = []\<rparr>]
       []))
     = [\<lparr>properties = [''best_rssi'' \<mapsto> JNum (- 40), ''layer'' \<mapsto> JStr ''access_points''],
         geometry = Point 7.8930 45.4750\<rparr>]
   \<and> routeFeatures (features (emit (\<lambda>a. [''best_rssi'' \<mapsto> JNum (bestRssi a)])
       [\<lparr>apMac = 0x0050C2334455, vendor = ''Unknown'', bestRssi = - 40,
         representativePoint = (45.4750, 7.8930), firstSeen = 100, lastSeen = 200,
         sessionIds = {''s1''}, encounterCount = 2\<rparr>]
       [\<lparr>route_session = ''s1'', route_points = [(7.8927, 45.4743), (7.8930, 45.4750)]\<rparr>,
        \<lparr>route_session = ''s2'', route_points = []\<rparr>]
       []))
     = [\<lparr>properties = [''session'' \<mapsto> JStr ''s1'', ''layer'' \<mapsto> JStr ''route''],
         geometry = LineString [(7.8927, 45.4743), (7.8930, 45.4750)]\<rparr>]
   \<and> \<lparr>properties = [''layer'' \<mapsto> JStr ''heatmap''], geometry = Point 1 2\<rparr>
       \<notin> set (allFeatures
             [\<lparr>properties = [''layer'' \<mapsto> JStr ''access_points''], geometry = Point 0 0\<rparr>,
              \<lparr>properties = [''layer'' \<mapsto> JStr ''heatmap''], geometry = Point 1 2\<rparr>,
              \<lparr>properties = [''layer'' \<mapsto> JStr ''route''], geometry = LineString [(0, 0), (1, 1)]\<rparr>])
   \<and> \<lparr>properties = [''layer'' \<mapsto> JStr ''heatmap''], geometry = Point 1 2\<rparr>
       \<notin> set (routeFeatures
             [\<lparr>properties = [''layer'' \<mapsto> JStr ''access_points''], geometry = Point 0 0\<rparr>,
              \<lparr>properties = [''layer'' \<mapsto> JStr ''heatmap''], geometry = Point 1 2\<rparr>,
              \<lparr>properties = [''layer'' \<mapsto> JStr ''route''], geometry = LineString [(0, 0), (1, 1)]\<rparr>])
   \<and> allFeatures
         [\<lparr>properties = [''layer'' \<mapsto> JStr ''access_points''], geometry = Point 0 0\<rparr>,
          \<lparr>properties = [''layer'' \<mapsto> JStr ''heatmap''], geometry = Point 1 2\<rparr>,
          \<lparr>properties = [''layer'' \<mapsto> JStr ''route''], geometry = LineString [(0, 0), (1, 1)]\<rparr>]
       = [\<lparr>properties = [''layer'' \<mapsto> JStr ''access_points''], geometry = Point 0 0\<rparr>]
   \<and> routeFeatures
         [\<lparr>properties = [''layer'' \<mapsto> JStr ''access_points''], geometry = Point 0 0\<rparr>,
          \<lparr>properties = [''layer'' \<mapsto> JStr ''heatmap''], geometry = Point 1 2\<rparr>,
          \<lparr>properties = [''layer'' \<mapsto> JStr ''route''], geometry = LineString [(0, 0), (1, 1)]\<rparr>]
       = [\<lparr>properties = [''layer'' \<mapsto> JStr ''route''], geometry = LineString [(0, 0), (1, 1)]\<rparr>]"
proof -
  let ?enc = "\<lambda>a. [''best_rssi'' \<mapsto> JNum (bestRssi a)]"
  let ?aggs = "[\<lparr>apMac = 0x0050C2334455, vendor = ''Unknown'', bestRssi = - 40,
         representativePoint = (45.4750, 7.8930), firstSeen = 100, lastSeen = 200,
         sessionIds = {''s1''}, encounterCount = 2\<rparr>]"
  let ?routes = "[\<lparr>route_session = ''s1'', route_points = [(7.8927, 45.4743), (7.8930, 45.4750)]\<rparr>,
        \<lparr>route_session = ''s2'', route_points = []\<rparr>]"
  let ?fo = "\<lparr>properties = [''layer'' \<mapsto> JStr ''heatmap''], geometry = Point 1 2\<rparr>"
  let ?fs = "[\<lparr>properties = [''layer'' \<mapsto> JStr ''access_points''], geometry = Point 0 0\<rparr>,
              ?fo,
              \<lparr>properties = [''layer'' \<mapsto> JStr ''route''], geometry = LineString [(0, 0), (1, 1)]\<rparr>]"
  note main = layer_tag_partitions_features [of ?enc ?aggs ?routes "[]"]
  have aps: "allFeatures (features (emit ?enc ?aggs ?routes [])) = map (ap_feature ?enc) ?aggs"
    using main by (elim conjE)
  have rts: "routeFeatures (features (emit ?enc ?aggs ?routes []))
       = map route_feature (filter (\<lambda>r. route_points r \<noteq> []) ?routes)"
    using main by (elim conjE)
  have "get_prop (properties ?fo) ''layer'' \<noteq> JStr ''access_points''
         \<and> get_prop (properties ?fo) ''layer'' \<noteq> JStr ''route''"
    by (simp add: get_prop_def)
  with main have neither: "?fo \<notin> set (allFeatures ?fs) \<and> ?fo \<notin> set (routeFeatures ?fs)"
    by blast
  have a2: "allFeatures ?fs
       = [\<lparr>properties = [''layer'' \<mapsto> JStr ''access_points''], geometry = Point 0 0\<rparr>]"
    by (simp add: allFeatures_def get_prop_def)
  have r2: "routeFeatures ?fs
       = [\<lparr>properties = [''layer'' \<mapsto> JStr ''route''], geometry = LineString [(0, 0), (1, 1)]\<rparr>]"
    by (simp add: routeFeatures_def get_prop_def)
  show ?thesis
    unfolding aps rts using neither a2 r2
    by (simp add: ap_feature_def route_feature_def)
qed

lemma mset_sort_insert: "mset (sort_insert cmp x ys) = add_mset x (mset ys)"
  by (induction ys) auto

lemma mset_js_sort: "mset (js_sort cmp xs) = mset xs"
  by (induction xs) (auto simp: js_sort_def mset_sort_insert)

lemma session_passes_text:
  assumes "sessions_text f" and "sel \<noteq> ''all''"
  shows "session_passes sel (properties f) = Inr (sel \<in> set (apSessions f))"
  using assms
  by (cases "get_prop (properties f) ''sessions''")
     (auto simp: session_passes_def sessions_text_def apSessions_def js_or_def)

lemma session_passes_True:
  assumes "session_passes sel (properties f) = Inr True" and "sel \<noteq> ''all''"
  shows "sel \<in> set (apSessions f)"
  using assms
  by (cases "js_or (get_prop (properties f) ''sessions'') (JStr '''')")
     (auto simp: session_passes_def apSessions_def)

lemma filter_callback_True:
  assumes "filter_callback h ui f = Inr True"
  shows "session_passes (selectedSession ui) (properties f) = Inr True"
  using assms
  by (auto simp: filter_callback_def Let_def split: if_splits sum.splits)

lemma filter_callback_session_only:
  assumes "sessions_text f" and "selectedSession ui \<noteq> ''all''"
    and "global_search ui = []" and "activeVendorFilter ui = None"
  shows "filter_callback h ui f
     = Inr (\<not> js_lt h (rssi_of f) (rssiVal ui) \<and> selectedSession ui \<in> set (apSessions f))"
  using assms
  by (simp add: filter_callback_def Let_def session_passes_text rssi_of_def lower_string_empty)

lemma js_filter_total:
  assumes "\<forall>x\<in>set xs. cb x = Inr (P x)"
  shows "js_filter cb xs = Inr (filter P xs)"
  using assms by (induction xs) auto

text \<open>
  Claim C7, amended. The dropdown has the option \<^verbatim>\<open>all\<close> and one option per entry of
  \<^verbatim>\<open>metadata.sessions\<close>, whose value is the \<^verbatim>\<open>name\<close> and whose text is made of the
  \<^verbatim>\<open>date\<close> and the \<^verbatim>\<open>ap_count\<close>. When the session input holds a session id that is neither
  empty nor \<^verbatim>\<open>all\<close>, a feature passes the session filter exactly when its \<^verbatim>\<open>sessions\<close>
  property, split on commas, contains the id: every feature in a result of
  \<^verbatim>\<open>updateMapFilters\<close> does, and with no search text and no vendor chip the result is the
  list of the features that do and pass the signal filter. With \<^verbatim>\<open>all\<close>, an empty value or
  no input element there is no session restriction.
\<close>

theorem session_dropdown_and_session_filter:
  assumes sel: "session_filter ui = Some s" and not_all: "s \<noteq> ''all''" and not_empty: "s \<noteq> []"
  shows
   "populateSessionDropdown h lc True sessions
      = Some (\<lparr>opt_value = ''all'', opt_text = ''All Sessions''\<rparr> #
              map (\<lambda>x. \<lparr>opt_value = name x,
                         opt_text = date x @ '' ('' @ js_toString h (JNum (ap_count x)) @ '' APs)''\<rparr>)
                  (js_sort (\<lambda>a b. lc (date b) (date a)) sessions))
    \<and> mset (js_sort (\<lambda>a b. lc (date b) (date a)) sessions) = mset sessions
    \<and> selectedSession ui = s
    \<and> (\<forall>f. sessions_text f \<longrightarrow>
          session_passes (selectedSession ui) (properties f) = Inr (s \<in> set (apSessions f)))
    \<and> (\<forall>fs out f. updateMapFilters h ui fs = Inr out \<and> f \<in> set out \<longrightarrow> s \<in> set (apSessions f))
    \<and> (\<forall>fs. (\<forall>f\<in>set fs. sessions_text f) \<and> global_search ui = [] \<and> activeVendorFilter ui = None
          \<longrightarrow> updateMapFilters h ui fs
               = Inr (filter (\<lambda>f. \<not> js_lt h (rssi_of f) (rssiVal ui) \<and> s \<in> set (apSessions f)) fs))
    \<and> (\<forall>ui' p. session_filter ui' = None \<or> session_filter ui' = Some [] \<or> session_filter ui' = Some ''all''
          \<longrightarrow> selectedSession ui' = ''all'' \<and> session_passes (selectedSession ui') p = Inr True)"
proof -
  have dropdown: "populateSessionDropdown h lc True sessions
      = Some (\<lparr>opt_value = ''all'', opt_text = ''All Sessions''\<rparr> #
              map (\<lambda>x. \<lparr>opt_value = name x,
                         opt_text = date x @ '' ('' @ js_toString h (JNum (ap_count x)) @ '' APs)''\<rparr>)
                  (js_sort (\<lambda>a b. lc (date b) (date a)) sessions))"
    by (simp add: populateSessionDropdown_def session_option_def [abs_def])
  have perm: "mset (js_sort (\<lambda>a b. lc (date b) (date a)) sessions) = mset sessions"
    by (rule mset_js_sort)
  have selected: "selectedSession ui = s"
    using sel not_empty by (simp add: selectedSession_def)
  have passes: "session_passes (selectedSession ui) (properties f) = Inr (s \<in> set (apSessions f))"
    if "sessions_text f" for f
    using session_passes_text [OF that not_all] by (simp add: selected)
  have sound: "s \<in> set (apSessions f)"
    if "updateMapFilters h ui fs = Inr out \<and> f \<in> set out" for fs out f
  proof -
    from that have "out = filter (\<lambda>x. filter_callback h ui x = Inr True) fs"
      by (simp add: updateMapFilters_def js_filter_Inr)
    with that have "filter_callback h ui f = Inr True" by simp
    then have "session_passes s (properties f) = Inr True"
      using filter_callback_True selected by metis
    then show ?thesis using not_all by (rule session_passes_True)
  qed
  have exact: "updateMapFilters h ui fs
               = Inr (filter (\<lambda>f. \<not> js_lt h (rssi_of f) (rssiVal ui) \<and> s \<in> set (apSessions f)) fs)"
    if "(\<forall>f\<in>set fs. sessions_text f) \<and> global_search ui = [] \<and> activeVendorFilter ui = None" for fs
    unfolding updateMapFilters_def
  proof (rule js_filter_total, rule ballI)
    fix f assume "f \<in> set fs"
    with that have "sessions_text f" by blast
    then show "filter_callback h ui f
       = Inr (\<not> js_lt h (rssi_of f) (rssiVal ui) \<and> s \<in> set (apSessions f))"
      using filter_callback_session_only [of f ui h] that selected not_all by simp
  qed
  have all: "selectedSession ui' = ''all'' \<and> session_passes (selectedSession ui') p = Inr True"
    if "session_filter ui' = None \<or> session_filter ui' = Some [] \<or> session_filter ui' = Some ''all''"
    for ui' p
    using that by (auto simp: selectedSession_def session_passes_def)
  from dropdown perm selected passes sound exact all show ?thesis by blast
qed

text \<open>
  Claim C7 as stated fails for the empty session id: it is not \<^verbatim>\<open>all\<close>, the
  \<^verbatim>\<open>sessions\<close> of the feature below do not contain it, and yet the feature passes, because
  line 466 reads an empty value of the session input as \<^verbatim>\<open>all\<close>. (Nothing of the host
  is consulted on this input.)
\<close>

theorem empty_session_id_selects_all_counterexample:
  "[] \<noteq> ''all''
   \<and> [] \<notin> set (apSessions \<lparr>properties = [''sessions'' \<mapsto> JStr ''260204_164121''], geometry = Point 0 0\<rparr>)
   \<and> updateMapFilters example_host
        \<lparr>global_search = [], session_filter = Some [], rssi_slider = None, activeVendorFilter = None\<rparr>
        [\<lparr>properties = [''sessions'' \<mapsto> JStr ''260204_164121''], geometry = Point 0 0\<rparr>]
      = Inr [\<lparr>properties = [''sessions'' \<mapsto> JStr ''260204_164121''], geometry = Point 0 0\<rparr>]"
  by (simp add: apSessions_def get_prop_def js_or_def updateMapFilters_def filter_callback_def
      js_lt_def rssiVal_def selectedSession_def session_passes_def lower_string_empty)

theorem session_dropdown_and_session_filter_witness:
  "populateSessionDropdown example_host code_unit_compare True
      [\<lparr>name = ''260204_164121'', date = ''2026-02-04'', ap_count = 345, duration_minutes = 45\<rparr>,
       \<lparr>name = ''260205_194604'', date = ''2026-02-05'', ap_count = 120, duration_minutes = 30\<rparr>]
     = Some [\<lparr>opt_value = ''all'', opt_text = ''All Sessions''\<rparr>,
             \<lparr>opt_value = ''260205_194604'', opt_text = ''2026-02-05 (120 APs)''\<rparr>,
             \<lparr>opt_value = ''260204_164121'', opt_text = ''2026-02-04 (345 APs)''\<rparr>]
   \<and> updateMapFilters example_host
        \<lparr>global_search = [], session_filter = Some ''260204_164121'', rssi_slider = Some ''-100'',
         activeVendorFilter = None\<rparr>
        [\<lparr>properties = [''sessions'' \<mapsto> JStr ''260204_164121,260205_194604'',
                        ''best_rssi'' \<mapsto> JNum (- 60)], geometry = Point 0 0\<rparr>,
         \<lparr>properties = [''sessions'' \<mapsto> JStr ''260205_194604'',
                        ''best_rssi'' \<mapsto> JNum (- 50)], geometry = Point 1 1\<rparr>,
         \<lparr>properties = [''best_rssi'' \<mapsto> JNum (- 70)], geometry = Point 2 2\<rparr>]
     = Inr [\<lparr>properties = [''sessions'' \<mapsto> JStr ''260204_164121,260205_194604'',
                        ''best_rssi'' \<mapsto> JNum (- 60)], geometry = Point 0 0\<rparr>]"
proof -
  let ?ui = "\<lparr>global_search = [], session_filter = Some ''260204_164121'', rssi_slider = Some ''-100'',
         activeVendorFilter = None\<rparr>"
  let ?f1 = "\<lparr>properties = [''sessions'' \<mapsto> JStr ''260204_164121,260205_194604'',
                        ''best_rssi'' \<mapsto> JNum (- 60)], geometry = Point 0 0\<rparr>"
  let ?f2 = "\<lparr>properties = [''sessions'' \<mapsto> JStr ''260205_194604'',
                        ''best_rssi'' \<mapsto> JNum (- 50)], geometry = Point 1 1\<rparr>"
  let ?f3 = "\<lparr>properties = [''best_rssi'' \<mapsto> JNum (- 70)], geometry = Point 2 2\<rparr>"
  let ?ss = "[\<lparr>name = ''260204_164121'', date = ''2026-02-04'', ap_count = 345, duration_minutes = 45\<rparr>,
       \<lparr>name = ''260205_194604'', date = ''2026-02-05'', ap_count = 120, duration_minutes = 30\<rparr>]"
  have h1: "session_filter ?ui = Some ''260204_164121''" by simp
  have h2: "''260204_164121'' \<noteq> ''all''" by simp
  have h3: "''260204_164121'' \<noteq> []" by simp
  note main = session_dropdown_and_session_filter [OF h1 h2 h3, of example_host code_unit_compare ?ss]
  have srt: "js_sort (\<lambda>a b. code_unit_compare (date b) (date a)) ?ss = rev ?ss"
    by (simp add: js_sort_def)
  have n1: "string_of_int 345 = ''345''" by code_simp
  have n2: "string_of_int 120 = ''120''" by code_simp
  have dropdown: "populateSessionDropdown example_host code_unit_compare True ?ss
     = Some [\<lparr>opt_value = ''all'', opt_text = ''All Sessions''\<rparr>,
             \<lparr>opt_value = ''260205_194604'', opt_text = ''2026-02-05 (120 APs)''\<rparr>,
             \<lparr>opt_value = ''260204_164121'', opt_text = ''2026-02-04 (345 APs)''\<rparr>]"
    using main [THEN conjunct1] unfolding srt by (simp add: n1 n2)
  have typed: "list_all sessions_text [?f1, ?f2, ?f3]" by code_simp
  then have typed': "\<forall>f\<in>set [?f1, ?f2, ?f3]. sessions_text f" by (simp only: list_all_iff)
  have exact: "updateMapFilters example_host ?ui [?f1, ?f2, ?f3]
      = Inr (filter (\<lambda>f. \<not> js_lt example_host (rssi_of f) (rssiVal ?ui)
                            \<and> ''260204_164121'' \<in> set (apSessions f)) [?f1, ?f2, ?f3])"
    using main typed' by simp
  have filtered: "updateMapFilters example_host ?ui [?f1, ?f2, ?f3] = Inr [?f1]"
    unfolding exact
    by (simp add: rssiVal_def parseInt_str_m100 rssi_of_def apSessions_def get_prop_def js_or_def
        js_lt_def)
  from dropdown filtered show ?thesis by (rule conjI)
qed

end
